theory Spec2Isabelle
  imports Complex_Main
begin

section \<open>Python values used by the data loader\<close>

text \<open>
  Exceptions of the source are values: every \<open>raise\<close>, failed \<open>assert\<close> and failing
  library call is an \<open>Inl\<close> result. \<open>ValueError\<close> carries its message.
\<close>

datatype error =
    ValueError string
  | AssertionError
  | RuntimeError
  | TypeError
  | KeyError
  | IndexError
  | OSError

text \<open>The fields of \<open>params\<close> that \<open>data_loader.py\<close> reads.\<close>

record params =
  sample_rate :: int
  hop_samples :: int
  crop_mel_frames :: int
  train_mixtures :: bool

subsection \<open>Decimal rendering of integers in f-strings\<close>

definition digit_char :: "nat \<Rightarrow> char" where
  "digit_char d = ''0123456789'' ! (d mod 10)"

function str_nat :: "nat \<Rightarrow> string" where
  "str_nat n = (if n < 10 then [digit_char n] else str_nat (n div 10) @ [digit_char (n mod 10)])"
  by pat_completeness auto
termination
  by (relation "measure id") auto

declare str_nat.simps [simp del]

definition str_int :: "int \<Rightarrow> string" where
  "str_int i = (if i < 0 then CHR ''-'' # str_nat (nat (- i)) else str_nat (nat i))"

section \<open>NumpyDataset: the pair index\<close>

text \<open>
  \<open>indices = [(0, 3), (3, 0)] if params.train_mixtures else [(0, 3), (3, 0), (1, 4), (4, 1), (2, 5), (5, 2)]\<close>
\<close>

definition indices :: "params \<Rightarrow> (int \<times> int) list" where
  "indices P =
     (if train_mixtures P then [(0, 3), (3, 0)]
      else [(0, 3), (3, 0), (1, 4), (4, 1), (2, 5), (5, 2)])"

subsection \<open>Scanning mode: \<open>if not files\<close>\<close>

text \<open>
  \<open>glob\<close> is the file system's answer to a recursive pattern; the loop
  \<open>for path in paths: filenames += glob(f'{path}/**/*.wav', recursive=True)\<close>
  concatenates the answers in the order of \<open>paths\<close>.
\<close>

fun glob_paths :: "(string \<Rightarrow> string list) \<Rightarrow> string list \<Rightarrow> string list \<Rightarrow> string list" where
  "glob_paths glob [] filenames = filenames"
| "glob_paths glob (path # paths) filenames =
     glob_paths glob paths (filenames @ glob (path @ ''/**/*.wav''))"

text \<open>\<open>x[:-6]\<close>: all but the last six characters, the empty string when \<open>x\<close> is shorter.\<close>

definition base_filename :: "string \<Rightarrow> string" where
  "base_filename x = take (length x - 6) x"

text \<open>
  \<open>[(f'{base_filename}.{i}.wav', f'{base_filename}.{j}.wav') for i, j in indices]\<close>
\<close>

definition scan_pairs :: "(int \<times> int) list \<Rightarrow> string \<Rightarrow> (string \<times> string) list" where
  "scan_pairs idx b =
     map (\<lambda>(i, j). (b @ ''.'' @ str_int i @ ''.wav'', b @ ''.'' @ str_int j @ ''.wav'')) idx"

text \<open>
  The loop over \<open>filenames\<close> with its two pieces of state, the set \<open>seen\<close> and the
  growing \<open>self.filenames\<close>.
\<close>

fun scan_loop ::
  "(int \<times> int) list \<Rightarrow> string list \<Rightarrow> string set \<Rightarrow> (string \<times> string) list
     \<Rightarrow> (string \<times> string) list" where
  "scan_loop idx [] seen acc = acc"
| "scan_loop idx (x # xs) seen acc =
     (let b = base_filename x in
      if b \<notin> seen then scan_loop idx xs (insert b seen) (acc @ scan_pairs idx b)
      else scan_loop idx xs seen acc)"

subsection \<open>List-file mode\<close>

text \<open>\<open>str.split('\n')\<close>: always at least one piece, the pieces between the newlines.\<close>

fun split_nl :: "string \<Rightarrow> string list" where
  "split_nl [] = [[]]"
| "split_nl (c # cs) =
     (if c = CHR 0x0A then [] # split_nl cs
      else (case split_nl cs of [] \<Rightarrow> [[c]] | l # ls \<Rightarrow> (c # l) # ls))"

text \<open>
  \<open>os.path.join(a, b)\<close> of \<open>posixpath\<close> for two components: an absolute \<open>b\<close> replaces
  \<open>a\<close>; otherwise \<open>b\<close> is appended, after a separator unless \<open>a\<close> is empty or ends in one.
\<close>

definition os_path_join :: "string \<Rightarrow> string \<Rightarrow> string" where
  "os_path_join a b =
     (if b \<noteq> [] \<and> hd b = CHR ''/'' then b
      else if a = [] \<or> last a = CHR ''/'' then a @ b
      else a @ ''/'' @ b)"

definition list_pairs :: "(int \<times> int) list \<Rightarrow> string \<Rightarrow> string \<Rightarrow> (string \<times> string) list" where
  "list_pairs idx path x =
     map (\<lambda>(i, j). (os_path_join path (x @ ''.'' @ str_int i @ ''.wav''),
                     os_path_join path (x @ ''.'' @ str_int j @ ''.wav''))) idx"

text \<open>\<open>for x in fi.read().split('\n'): if len(x) > 0: self.filenames += [...]\<close>\<close>

fun lines_loop ::
  "(int \<times> int) list \<Rightarrow> string \<Rightarrow> string list \<Rightarrow> (string \<times> string) list
     \<Rightarrow> (string \<times> string) list" where
  "lines_loop idx path [] acc = acc"
| "lines_loop idx path (x # xs) acc =
     (if length x > 0 then lines_loop idx path xs (acc @ list_pairs idx path x)
      else lines_loop idx path xs acc)"

text \<open>
  \<open>for path, f in zip(paths, files)\<close>. \<open>read_text f\<close> is what
  \<open>open(f, 'r', encoding='utf-8').read()\<close> gives: the text, or the error it raises.
\<close>

fun files_loop ::
  "(string \<Rightarrow> error + string) \<Rightarrow> (int \<times> int) list \<Rightarrow> (string \<times> string) list
     \<Rightarrow> (string \<times> string) list \<Rightarrow> error + (string \<times> string) list" where
  "files_loop read_text idx [] acc = Inr acc"
| "files_loop read_text idx ((path, f) # rest) acc =
     (case read_text f of
        Inl e \<Rightarrow> Inl e
      | Inr content \<Rightarrow> files_loop read_text idx rest (lines_loop idx path (split_nl content) acc))"

subsection \<open>The constructor\<close>

record numpy_dataset =
  ds_params :: params
  ds_is_training :: bool
  ds_filenames :: "(string \<times> string) list"
  ds_crop_mel :: "int option"

text \<open>
  \<open>files\<close> is \<open>None\<close> or a list; \<open>not files\<close> holds for \<open>None\<close> and for the empty list.
\<close>

definition not_files :: "string list option \<Rightarrow> bool" where
  "not_files files = (case files of None \<Rightarrow> True | Some fs \<Rightarrow> fs = [])"

definition NumpyDataset_init ::
  "(string \<Rightarrow> string list) \<Rightarrow> (string \<Rightarrow> error + string) \<Rightarrow> string list
     \<Rightarrow> string list option \<Rightarrow> params \<Rightarrow> int option \<Rightarrow> bool \<Rightarrow> error + numpy_dataset" where
  "NumpyDataset_init glob read_text paths files P crop_mel is_training =
     (let idx = indices P in
      if not_files files then
        (let filenames = glob_paths glob paths [] in
         Inr \<lparr>ds_params = P, ds_is_training = is_training,
              ds_filenames = scan_loop idx filenames {} [], ds_crop_mel = crop_mel\<rparr>)
      else
        (let fs = the files in
         if length fs \<noteq> length paths then Inl AssertionError
         else
           (case files_loop read_text idx (zip paths fs) [] of
              Inl e \<Rightarrow> Inl e
            | Inr names \<Rightarrow>
                Inr \<lparr>ds_params = P, ds_is_training = is_training,
                     ds_filenames = names, ds_crop_mel = crop_mel\<rparr>)))"

definition NumpyDataset_len :: "numpy_dataset \<Rightarrow> nat" where
  "NumpyDataset_len ds = length (ds_filenames ds)"

subsection \<open>The index as the specification words it\<close>

text \<open>
  Deduplication in which the first occurrence wins and the order of first occurrences is
  kept; the loop with \<open>seen\<close> is compared with it below.
\<close>

fun dedup_first :: "'a list \<Rightarrow> 'a list" where
  "dedup_first [] = []"
| "dedup_first (x # xs) = x # dedup_first (removeAll x xs)"

definition scanned_stems :: "(string \<Rightarrow> string list) \<Rightarrow> string list \<Rightarrow> string list" where
  "scanned_stems glob paths =
     dedup_first (map base_filename (concat (map (\<lambda>p. glob (p @ ''/**/*.wav'')) paths)))"

text \<open>
  The naming convention of the audio files: the file of group stem \<open>s\<close> and instrument
  tag \<open>t\<close> is \<open>s.t.wav\<close>.
\<close>

definition wav_name :: "string \<times> int \<Rightarrow> string" where
  "wav_name st = fst st @ ''.'' @ str_int (snd st) @ ''.wav''"

subsection \<open>Concrete inputs\<close>

definition two_group_glob :: "string \<Rightarrow> string list" where
  "two_group_glob pat =
     (if pat = ''d/**/*.wav''
      then [''d/songB.0.wav'', ''d/songA.0.wav'', ''d/songB.3.wav'']
      else if pat = ''e/**/*.wav''
      then [''d/songA.3.wav'', ''d/songB.5.wav'']
      else [])"

definition two_group_named :: "(string \<times> int) list" where
  "two_group_named =
     [(''d/songB'', 0), (''d/songA'', 0), (''d/songB'', 3), (''d/songA'', 3), (''d/songB'', 5)]"

definition full_params :: params where
  "full_params =
     \<lparr>sample_rate = 16000, hop_samples = 256, crop_mel_frames = 30, train_mixtures = False\<rparr>"

definition mix_params :: params where
  "mix_params =
     \<lparr>sample_rate = 16000, hop_samples = 256, crop_mel_frames = 30, train_mixtures = True\<rparr>"

definition train_list :: "string \<Rightarrow> string" where
  "train_list f = [CHR ''s'', CHR 0x0A, CHR 0x0A, CHR ''t'', CHR 0x0A]"

section \<open>Tensors and dictionaries\<close>

text \<open>
  A tensor is its shape and its elements in row-major order. Samples are idealised as
  real numbers; no property below depends on rounding.
\<close>

datatype tensor = Tensor (shape: "nat list") (flat: "real list")

definition wf_tensor :: "tensor \<Rightarrow> bool" where
  "wf_tensor t = (length (flat t) = prod_list (shape t))"

text \<open>A one-dimensional tensor holding the samples of a waveform.\<close>

definition of_wave :: "real list \<Rightarrow> tensor" where
  "of_wave w = Tensor [length w] w"

text \<open>\<open>len(t)\<close>: the leading dimension; a zero-dimensional tensor has no length.\<close>

definition tensor_len :: "tensor \<Rightarrow> error + nat" where
  "tensor_len t = (case shape t of [] \<Rightarrow> Inl TypeError | d # ds \<Rightarrow> Inr d)"

text \<open>\<open>t.squeeze(0)\<close>: a leading dimension of size one is removed, any other is kept.\<close>

definition squeeze0 :: "tensor \<Rightarrow> tensor" where
  "squeeze0 t =
     (case shape t of
        [] \<Rightarrow> t
      | d # ds \<Rightarrow> if d = 1 then Tensor ds (flat t) else t)"

text \<open>Row-major position of a multi-index, and the multi-index at a position.\<close>

definition ravel :: "nat list \<Rightarrow> nat list \<Rightarrow> nat" where
  "ravel sh ix = foldl (\<lambda>acc (d, i). acc * d + i) 0 (zip sh ix)"

fun unravel :: "nat list \<Rightarrow> nat \<Rightarrow> nat list" where
  "unravel [] k = []"
| "unravel (d # ds) k = (k div prod_list ds) # unravel ds (k mod prod_list ds)"

definition elem_at :: "real list \<Rightarrow> nat \<Rightarrow> real" where
  "elem_at xs k = (if k < length xs then xs ! k else 0)"

text \<open>
  \<open>t.T\<close>: the dimensions in reverse order, element \<open>ix\<close> of the result being element
  \<open>rev ix\<close> of \<open>t\<close>; on a matrix this is the transpose.
\<close>

definition tensor_T :: "tensor \<Rightarrow> tensor" where
  "tensor_T t =
     (let sh = shape t; sh' = rev sh in
      Tensor sh' (map (\<lambda>k. elem_at (flat t) (ravel sh (rev (unravel sh' k))))
                    [0 ..< prod_list sh']))"

text \<open>
  \<open>torch.stack\<close> of tensors: the list must be non-empty and all shapes equal; the result
  has a new leading dimension, the number of tensors stacked.
\<close>

definition stack :: "tensor list \<Rightarrow> error + tensor" where
  "stack ts =
     (case ts of
        [] \<Rightarrow> Inl RuntimeError
      | t # rest \<Rightarrow>
          if list_all (\<lambda>u. shape u = shape t) rest
          then Inr (Tensor (length ts # shape t) (concat (map flat ts)))
          else Inl RuntimeError)"

text \<open>The values stored in the dictionaries of the loader: a tensor or \<open>None\<close>.\<close>

datatype pyval = PyNone | PyTensor tensor

fun tensors_of :: "pyval list \<Rightarrow> tensor list option" where
  "tensors_of [] = Some []"
| "tensors_of (PyNone # vs) = None"
| "tensors_of (PyTensor t # vs) = map_option ((#) t) (tensors_of vs)"

text \<open>\<open>torch.stack\<close> applied to Python values: an element that is not a tensor is a type error.\<close>

definition torch_stack :: "pyval list \<Rightarrow> error + tensor" where
  "torch_stack vs = (case tensors_of vs of None \<Rightarrow> Inl TypeError | Some ts \<Rightarrow> stack ts)"

text \<open>
  A \<open>dict\<close> with string keys, as its items in insertion order; each key occurs once.
\<close>

type_synonym pydict = "(string \<times> pyval) list"

definition dict_get :: "pydict \<Rightarrow> string \<Rightarrow> error + pyval" where
  "dict_get d k = (case map_of d k of None \<Rightarrow> Inl KeyError | Some v \<Rightarrow> Inr v)"

definition dict_in :: "string \<Rightarrow> pydict \<Rightarrow> bool" where
  "dict_in k d = (map_of d k \<noteq> None)"

fun dict_set :: "pydict \<Rightarrow> string \<Rightarrow> pyval \<Rightarrow> pydict" where
  "dict_set [] k v = [(k, v)]"
| "dict_set ((k', v') # d) k v = (if k' = k then (k, v) # d else (k', v') # dict_set d k v)"

definition dict_del :: "pydict \<Rightarrow> string \<Rightarrow> error + pydict" where
  "dict_del d k =
     (if dict_in k d then Inr (filter (\<lambda>kv. fst kv \<noteq> k) d) else Inl KeyError)"

text \<open>\<open>xs[i]\<close> on a list: a negative index counts from the end, out of range raises.\<close>

definition list_index :: "'a list \<Rightarrow> int \<Rightarrow> error + 'a" where
  "list_index xs i =
     (if 0 \<le> i \<and> i < int (length xs) then Inr (xs ! nat i)
      else if i < 0 \<and> - int (length xs) \<le> i then Inr (xs ! nat (i + int (length xs)))
      else Inl IndexError)"

text \<open>
  \<open>xs[start:end]\<close>: a negative bound counts from the end, both bounds are clamped to the
  sequence, and an empty range gives the empty sequence.
\<close>

definition slice_bound :: "int \<Rightarrow> int \<Rightarrow> int" where
  "slice_bound n i = (let j = (if i < 0 then i + n else i) in max 0 (min n j))"

definition py_slice :: "'a list \<Rightarrow> int \<Rightarrow> int \<Rightarrow> 'a list" where
  "py_slice xs start end =
     (let n = int (length xs); s = slice_bound n start; e = slice_bound n end
      in take (nat (e - s)) (drop (nat s) xs))"

text \<open>
  \<open>random.randint(a, b)\<close>: some integer of the inclusive range, here the one selected by
  the draw \<open>u\<close>; every integer of the range is selected by some draw. An empty range
  raises.
\<close>

definition randint :: "nat \<Rightarrow> int \<Rightarrow> int \<Rightarrow> error + int" where
  "randint u a b =
     (if b < a then Inl (ValueError ''empty range for randrange()'')
      else Inr (a + int (u mod nat (b - a + 1))))"

text \<open>\<open>torch.zeros(n)\<close>: a negative size is refused.\<close>

definition torch_zeros :: "int \<Rightarrow> error + real list" where
  "torch_zeros n = (if n < 0 then Inl RuntimeError else Inr (replicate (nat n) 0))"

section \<open>NumpyDataset: the example transform\<close>

text \<open>\<open>crop_mel = self.crop_mel if self.crop_mel else self.params.crop_mel_frames\<close>\<close>

definition truthy :: "int option \<Rightarrow> bool" where
  "truthy c = (case c of None \<Rightarrow> False | Some n \<Rightarrow> n \<noteq> 0)"

definition effective_crop_mel :: "int option \<Rightarrow> params \<Rightarrow> int" where
  "effective_crop_mel c P = (if truthy c then the c else crop_mel_frames P)"

text \<open>The message of the \<open>ValueError\<close> raised on a sample-rate mismatch.\<close>

definition sample_rate_message :: "int \<Rightarrow> int \<Rightarrow> int \<Rightarrow> string" where
  "sample_rate_message sr1 sr2 sr =
     ''Invalid sample rate: sr1 = '' @ str_int sr1 @ '' and sr2 = '' @ str_int sr2
       @ '' while sample rate in params is '' @ str_int sr @ ''.''"

text \<open>
  A decoded file is a matrix of channels by samples, given as its rows; \<open>shape2\<close> is its
  \<open>.shape\<close>.
\<close>

definition shape2 :: "real list list \<Rightarrow> nat \<times> nat" where
  "shape2 sig = (length sig, if sig = [] then 0 else length (hd sig))"

text \<open>
  \<open>torch.nn.functional.normalize(signal, p=float('inf'), dim=-1, eps=1e-12)\<close>: each row
  divided by the larger of its greatest absolute value and \<open>eps\<close>. The infinity norm
  over an empty dimension has no identity and is refused by the library.
\<close>

definition linf_norm :: "real list \<Rightarrow> real" where
  "linf_norm row = fold (\<lambda>x m. max \<bar>x\<bar> m) row 0"

definition normalize_row :: "real list \<Rightarrow> real list" where
  "normalize_row row = map (\<lambda>x. x / max (linf_norm row) (1 / 10 ^ 12)) row"

definition normalize_inf :: "real list list \<Rightarrow> error + real list list" where
  "normalize_inf sig =
     (if list_ex (\<lambda>row. row = []) sig then Inl RuntimeError
      else Inr (map normalize_row sig))"

text \<open>\<open>normalize(...) * 0.95\<close> followed by \<open>.squeeze(0)\<close> on a one-row matrix.\<close>

definition scale_squeeze :: "real list list \<Rightarrow> real list" where
  "scale_squeeze sig = map (\<lambda>x. x * (95 / 100)) (hd sig)"

text \<open>
  The crop step: with \<open>crop_len = (crop_mel - 1) * hop_samples\<close>, a signal at least that
  long is cut, together with its partner, to \<open>[start:end]\<close> for one random \<open>start\<close>.
\<close>

definition crop_len :: "params \<Rightarrow> int option \<Rightarrow> int" where
  "crop_len P c = (effective_crop_mel c P - 1) * hop_samples P"

definition crop :: "params \<Rightarrow> int option \<Rightarrow> nat \<Rightarrow> 'a list \<Rightarrow> 'a list \<Rightarrow> error + 'a list \<times> 'a list" where
  "crop P c u signal1 signal2 =
     (let crop_mel = effective_crop_mel c P in
      if int (length signal1) \<ge> (crop_mel - 1) * hop_samples P then
        (case randint u 0 (int (length signal1) - (crop_mel - 1) * hop_samples P) of
           Inl e \<Rightarrow> Inl e
         | Inr start \<Rightarrow>
             (let end = start + (crop_mel - 1) * hop_samples P
              in Inr (py_slice signal1 start end, py_slice signal2 start end)))
      else Inr (signal1, signal2))"

text \<open>
  \<open>try: spectrogram = get_spec(signal1, self.params)\<close>,
  \<open>except Exception: spectrogram = None\<close>.
\<close>

definition try_get_spec ::
    "(real list \<Rightarrow> params \<Rightarrow> error + tensor) \<Rightarrow> real list \<Rightarrow> params \<Rightarrow> tensor option" where
  "try_get_spec get_spec signal1 P =
     (case get_spec signal1 P of Inl e \<Rightarrow> None | Inr m \<Rightarrow> Some m)"

text \<open>The dictionary returned by \<open>__getitem__\<close>.\<close>

definition transformed_example :: "pyval \<Rightarrow> pyval \<Rightarrow> pyval \<Rightarrow> pydict" where
  "transformed_example a s c =
     [(''audio'', a), (''spectrogram'', s), (''audio_cond_inst'', c)]"

text \<open>Padding with \<open>hop_samples\<close> zeros, the transposition of the spectrogram, the result.\<close>

definition pad_and_pack :: "params \<Rightarrow> tensor option \<Rightarrow> real list \<Rightarrow> real list \<Rightarrow> error + pydict" where
  "pad_and_pack P spectrogram signal1 signal2 =
     (case torch_zeros (hop_samples P) of
        Inl e \<Rightarrow> Inl e
      | Inr z2 \<Rightarrow>
     (case torch_zeros (hop_samples P) of
        Inl e \<Rightarrow> Inl e
      | Inr z1 \<Rightarrow>
          Inr (transformed_example
                 (PyTensor (of_wave (signal2 @ z2)))
                 (case spectrogram of
                    None \<Rightarrow> PyNone
                  | Some m \<Rightarrow> PyTensor (tensor_T (squeeze0 m)))
                 (PyTensor (of_wave (signal1 @ z1))))))"

text \<open>
  \<open>__getitem__\<close>. \<open>load\<close> stands for \<open>torchaudio.load\<close> (the decoded matrix and its sample
  rate, or the error raised), \<open>get_spec\<close> for the extractor of module \<open>preprocess\<close>, and
  \<open>u\<close> for the draw of the random generator.
\<close>

definition NumpyDataset_getitem ::
    "(string \<Rightarrow> error + real list list \<times> int) \<Rightarrow> (real list \<Rightarrow> params \<Rightarrow> error + tensor)
       \<Rightarrow> nat \<Rightarrow> numpy_dataset \<Rightarrow> int \<Rightarrow> error + pydict" where
  "NumpyDataset_getitem load get_spec u ds idx =
     (case list_index (ds_filenames ds) idx of
        Inl e \<Rightarrow> Inl e
      | Inr (instrument1_filename, instrument2_filename) \<Rightarrow>
     (case load instrument1_filename of
        Inl e \<Rightarrow> Inl e
      | Inr (signal1, sr1) \<Rightarrow>
     (case load instrument2_filename of
        Inl e \<Rightarrow> Inl e
      | Inr (signal2, sr2) \<Rightarrow>
          if sample_rate (ds_params ds) \<noteq> sr1 \<or> sample_rate (ds_params ds) \<noteq> sr2
          then Inl (ValueError (sample_rate_message sr1 sr2 (sample_rate (ds_params ds))))
          else if shape2 signal1 \<noteq> shape2 signal2 then Inl AssertionError
          else if \<not> (fst (shape2 signal1) = 1 \<and> fst (shape2 signal2) = 1) then Inl AssertionError
          else
     (case normalize_inf signal1 of
        Inl e \<Rightarrow> Inl e
      | Inr n1 \<Rightarrow>
     (case normalize_inf signal2 of
        Inl e \<Rightarrow> Inl e
      | Inr n2 \<Rightarrow>
     (case crop (ds_params ds) (ds_crop_mel ds) u (scale_squeeze n1) (scale_squeeze n2) of
        Inl e \<Rightarrow> Inl e
      | Inr (c1, c2) \<Rightarrow>
          pad_and_pack (ds_params ds) (try_get_spec get_spec c1 (ds_params ds)) c1 c2))))))"

subsection \<open>The spectrogram extractor\<close>

text \<open>
  Modelled from the spec: \<open>get_spec\<close> of module \<open>preprocess\<close>, which is not among the
  sources. The specification describes it as a collaborator that consumes a mono waveform
  and the configuration and "returns a mel-spectrogram tensor of shape [1, mel-bins,
  time-frames]; may raise on degenerate input", and states that a spectrogram that is
  present has a time-length of at least one. \<open>mel_shaped\<close> is that shape, and
  \<open>get_spec_contract\<close> says that every tensor the extractor returns has it.
\<close>

definition mel_shaped :: "tensor \<Rightarrow> bool" where
  "mel_shaped m =
     (case shape m of
        [one, mel_bins, time_frames] \<Rightarrow> one = 1 \<and> 1 \<le> time_frames
      | _ \<Rightarrow> False)"

definition get_spec_contract :: "(real list \<Rightarrow> params \<Rightarrow> error + tensor) \<Rightarrow> params \<Rightarrow> bool" where
  "get_spec_contract get_spec P = (\<forall>w m. get_spec w P = Inr m \<longrightarrow> mel_shaped m)"

subsection \<open>Concrete inputs of the transform\<close>

definition small_params :: params where
  "small_params =
     \<lparr>sample_rate = 16000, hop_samples = 2, crop_mel_frames = 3, train_mixtures = True\<rparr>"

definition small_ds :: numpy_dataset where
  "small_ds =
     \<lparr>ds_params = small_params, ds_is_training = True,
      ds_filenames = [(''a.0.wav'', ''a.3.wav'')], ds_crop_mel = None\<rparr>"

definition small_load :: "string \<Rightarrow> error + real list list \<times> int" where
  "small_load f =
     (if f = ''a.0.wav'' then Inr ([[1, - 2, 1 / 2, 0, 1, 1]], 16000)
      else Inr ([[4, 2, 0, - 1, 1, 2]], 16000))"

definition bad_rate_load :: "string \<Rightarrow> error + real list list \<times> int" where
  "bad_rate_load f = Inr ([[0, 1]], 22050)"

definition failing_get_spec :: "real list \<Rightarrow> params \<Rightarrow> error + tensor" where
  "failing_get_spec w P = Inl RuntimeError"

definition framing_get_spec :: "real list \<Rightarrow> params \<Rightarrow> error + tensor" where
  "framing_get_spec w P =
     (if w = [] then Inl RuntimeError
      else Inr (Tensor [1, 1, 1 + length w div nat (hop_samples P)]
                  (replicate (1 + length w div nat (hop_samples P)) 0)))"

definition tiny_load :: "string \<Rightarrow> error + real list list \<times> int" where
  "tiny_load f = Inr ([[1]], 16000)"

section \<open>Collator\<close>

record collator =
  c_params :: params
  c_is_training :: bool
  c_crop_mel :: "int option"

definition Collator_init :: "params \<Rightarrow> int option \<Rightarrow> bool \<Rightarrow> collator" where
  "Collator_init P crop_mel is_training =
     \<lparr>c_params = P, c_is_training = is_training, c_crop_mel = crop_mel\<rparr>"

text \<open>The three \<open>del\<close> statements of the filter, in their order.\<close>

definition del_fields :: "pydict \<Rightarrow> error + pydict" where
  "del_fields record =
     (case dict_del record ''spectrogram'' of
        Inl e \<Rightarrow> Inl e
      | Inr r1 \<Rightarrow>
     (case dict_del r1 ''audio'' of
        Inl e \<Rightarrow> Inl e
      | Inr r2 \<Rightarrow> dict_del r2 ''audio_cond_inst''))"

text \<open>The three assignments made to a record that is kept.\<close>

definition keep_fields :: "tensor \<Rightarrow> pydict \<Rightarrow> error + pydict" where
  "keep_fields s record =
     (let r1 = dict_set record ''spectrogram'' (PyTensor (tensor_T s)) in
      case dict_get r1 ''audio'' of
        Inl e \<Rightarrow> Inl e
      | Inr a \<Rightarrow>
     (let r2 = dict_set r1 ''audio'' a in
      case dict_get r2 ''audio_cond_inst'' of
        Inl e \<Rightarrow> Inl e
      | Inr c \<Rightarrow> Inr (dict_set r2 ''audio_cond_inst'' c)))"

text \<open>The body of \<open>for record in minibatch\<close>; the record is returned as it is left.\<close>

definition filter_record :: "int \<Rightarrow> pydict \<Rightarrow> error + pydict" where
  "filter_record crop_mel record =
     (case dict_get record ''spectrogram'' of
        Inl e \<Rightarrow> Inl e
      | Inr PyNone \<Rightarrow> del_fields record
      | Inr (PyTensor s) \<Rightarrow>
          (case tensor_len s of
             Inl e \<Rightarrow> Inl e
           | Inr n \<Rightarrow>
               if int n < crop_mel then del_fields record
               else keep_fields s record))"

fun filter_loop :: "int \<Rightarrow> pydict list \<Rightarrow> error + pydict list" where
  "filter_loop crop_mel [] = Inr []"
| "filter_loop crop_mel (record # minibatch) =
     (case filter_record crop_mel record of
        Inl e \<Rightarrow> Inl e
      | Inr r \<Rightarrow>
          (case filter_loop crop_mel minibatch of
             Inl e \<Rightarrow> Inl e
           | Inr rs \<Rightarrow> Inr (r # rs)))"

text \<open>\<open>[record[k] for record in minibatch if k in record]\<close>\<close>

definition field_values :: "string \<Rightarrow> pydict list \<Rightarrow> pyval list" where
  "field_values k minibatch = List.map_filter (\<lambda>record. map_of record k) minibatch"

record batch =
  b_audio :: tensor
  b_spectrogram :: tensor
  b_audio_cond_inst :: tensor

text \<open>\<open>collate\<close>: \<open>Inr None\<close> is the returned \<open>None\<close>.\<close>

definition collate :: "collator \<Rightarrow> pydict list \<Rightarrow> error + batch option" where
  "collate self minibatch =
     (let crop_mel = effective_crop_mel (c_crop_mel self) (c_params self) in
      case filter_loop crop_mel minibatch of
        Inl e \<Rightarrow> Inl e
      | Inr records \<Rightarrow>
          if list_all (\<lambda>record. record = []) records then Inr None
          else
     (case torch_stack (field_values ''audio'' records) of
        Inl e \<Rightarrow> Inl e
      | Inr audio \<Rightarrow>
     (case torch_stack (field_values ''audio_cond_inst'' records) of
        Inl e \<Rightarrow> Inl e
      | Inr audio_cond_inst \<Rightarrow>
     (case torch_stack (field_values ''spectrogram'' records) of
        Inl e \<Rightarrow> Inl e
      | Inr spectrogram \<Rightarrow>
          Inr (Some \<lparr>b_audio = audio, b_spectrogram = spectrogram,
                     b_audio_cond_inst = audio_cond_inst\<rparr>)))))"

subsection \<open>Transformed examples and the filter as the specification words it\<close>

text \<open>
  A transformed example: the \<open>audio\<close> tensor, the spectrogram or its absence, and the
  \<open>audio_cond_inst\<close> tensor; \<open>example_dict\<close> is the dictionary holding it.
\<close>

type_synonym example = "tensor \<times> tensor option \<times> tensor"

definition example_dict :: "example \<Rightarrow> pydict" where
  "example_dict ex =
     (case ex of (a, s, c) \<Rightarrow>
        transformed_example (PyTensor a)
          (case s of None \<Rightarrow> PyNone | Some t \<Rightarrow> PyTensor t) (PyTensor c))"

text \<open>
  An example is excluded when its spectrogram is absent or has a time-length (leading
  dimension) below the crop length.
\<close>

definition excluded :: "int \<Rightarrow> example \<Rightarrow> bool" where
  "excluded crop_mel ex =
     (case ex of (a, s, c) \<Rightarrow>
        (case s of
           None \<Rightarrow> True
         | Some t \<Rightarrow> (case tensor_len t of Inl e \<Rightarrow> False | Inr n \<Rightarrow> int n < crop_mel)))"

definition survivors :: "int \<Rightarrow> example list \<Rightarrow> example list" where
  "survivors crop_mel exs = filter (\<lambda>ex. \<not> excluded crop_mel ex) exs"

text \<open>A surviving example as the loop leaves it: its spectrogram transposed.\<close>

definition kept :: "example \<Rightarrow> example" where
  "kept ex = (case ex of (a, s, c) \<Rightarrow> (a, map_option tensor_T s, c))"

definition audio_of :: "example \<Rightarrow> tensor" where
  "audio_of ex = fst ex"

definition spectrogram_of :: "example \<Rightarrow> tensor option" where
  "spectrogram_of ex = fst (snd ex)"

definition audio_cond_inst_of :: "example \<Rightarrow> tensor" where
  "audio_cond_inst_of ex = snd (snd ex)"

subsection \<open>Concrete inputs of the collator\<close>

definition absent_example :: example where
  "absent_example = (of_wave [1, 2], None, of_wave [3, 4])"

definition long_spec :: tensor where
  "long_spec = Tensor [3, 1] [1, 2, 3]"

definition long_example :: example where
  "long_example = (of_wave [1, 2], Some long_spec, of_wave [3, 4])"

definition short_collator :: collator where
  "short_collator = Collator_init full_params (Some 2) True"

definition long_batch :: batch where
  "long_batch = \<lparr>b_audio = Tensor [1, 2] [1, 2], b_spectrogram = Tensor [1, 1, 3] [1, 2, 3],
                  b_audio_cond_inst = Tensor [1, 2] [3, 4]\<rparr>"

text \<open>Examples that \<open>__getitem__\<close> returns, a collator with an override, and a batch.\<close>

definition tiny_example :: example where
  "tiny_example = (Tensor [3] [19 / 20, 0, 0], Some (Tensor [1, 1] [0]), Tensor [3] [19 / 20, 0, 0])"

definition failed_example :: example where
  "failed_example =
     (Tensor [6] [19 / 40, 0, - (19 / 80), 19 / 80, 0, 0], None,
      Tensor [6] [- (19 / 20), 19 / 80, 0, 19 / 40, 0, 0])"

definition produced_example :: example where
  "produced_example =
     (Tensor [6] [19 / 40, 0, - (19 / 80), 19 / 80, 0, 0], Some (Tensor [3, 1] [0, 0, 0]),
      Tensor [6] [- (19 / 20), 19 / 80, 0, 19 / 40, 0, 0])"

definition override_collator :: collator where
  "override_collator = Collator_init small_params (Some 2) False"

definition produced_batch :: batch where
  "produced_batch =
     \<lparr>b_audio = Tensor [1, 6] [19 / 40, 0, - (19 / 80), 19 / 80, 0, 0],
      b_spectrogram = Tensor [1, 1, 3] [0, 0, 0],
      b_audio_cond_inst = Tensor [1, 6] [- (19 / 20), 19 / 80, 0, 19 / 40, 0, 0]\<rparr>"

section \<open>Properties of the pair index\<close>

lemma set_dedup_first [simp]: "set (dedup_first xs) = set xs"
  by (induction xs rule: dedup_first.induct) auto

lemma distinct_dedup_first [simp]: "distinct (dedup_first xs)"
  by (induction xs rule: dedup_first.induct) auto

lemma length_dedup_first: "length (dedup_first xs) = card (set xs)"
  using distinct_card[OF distinct_dedup_first, of xs] by simp

lemma filter_insert_seen:
  "filter (\<lambda>b. b \<noteq> a \<and> b \<notin> seen) ys = removeAll a (filter (\<lambda>b. b \<notin> seen) ys)"
  by (induction ys) auto

lemma scan_loop_eq:
  "scan_loop idx xs seen acc =
     acc @ concat (map (scan_pairs idx) (dedup_first (filter (\<lambda>b. b \<notin> seen) (map base_filename xs))))"
proof (induction xs arbitrary: seen acc)
  case Nil
  then show ?case by simp
next
  case (Cons x xs)
  show ?case
  proof (cases "base_filename x \<in> seen")
    case True
    then show ?thesis using Cons.IH[of seen acc] by simp
  next
    case False
    then show ?thesis
      using Cons.IH[of "insert (base_filename x) seen" "acc @ scan_pairs idx (base_filename x)"]
      by (simp add: filter_insert_seen Let_def)
  qed
qed

lemma glob_paths_eq:
  "glob_paths glob paths acc = acc @ concat (map (\<lambda>p. glob (p @ ''/**/*.wav'')) paths)"
  by (induction paths arbitrary: acc) auto

lemma length_concat_const:
  "(\<And>x. x \<in> set xs \<Longrightarrow> length (f x) = k) \<Longrightarrow> length (concat (map f xs)) = length xs * k"
  by (induction xs) auto

lemma scan_pairs_mixtures:
  "train_mixtures P \<Longrightarrow> scan_pairs (indices P) b = [(b @ ''.0.wav'', b @ ''.3.wav''), (b @ ''.3.wav'', b @ ''.0.wav'')]"
  by (simp add: scan_pairs_def indices_def str_int_def str_nat.simps digit_char_def)

lemma scan_pairs_full:
  "\<not> train_mixtures P \<Longrightarrow> scan_pairs (indices P) b =
     [(b @ ''.0.wav'', b @ ''.3.wav''), (b @ ''.3.wav'', b @ ''.0.wav''),
      (b @ ''.1.wav'', b @ ''.4.wav''), (b @ ''.4.wav'', b @ ''.1.wav''),
      (b @ ''.2.wav'', b @ ''.5.wav''), (b @ ''.5.wav'', b @ ''.2.wav'')]"
  by (simp add: scan_pairs_def indices_def str_int_def str_nat.simps digit_char_def)


lemma scan_index_by_base_filename:
  assumes "not_files files"
  shows "\<exists>ds. NumpyDataset_init glob read_text paths files P crop_mel is_training = Inr ds
      \<and> ds_filenames ds =
          concat (map (\<lambda>b.
            if train_mixtures P
            then [(b @ ''.0.wav'', b @ ''.3.wav''), (b @ ''.3.wav'', b @ ''.0.wav'')]
            else [(b @ ''.0.wav'', b @ ''.3.wav''), (b @ ''.3.wav'', b @ ''.0.wav''),
                  (b @ ''.1.wav'', b @ ''.4.wav''), (b @ ''.4.wav'', b @ ''.1.wav''),
                  (b @ ''.2.wav'', b @ ''.5.wav''), (b @ ''.5.wav'', b @ ''.2.wav'')])
            (scanned_stems glob paths))
      \<and> NumpyDataset_len ds =
          card (base_filename ` (\<Union>p \<in> set paths. set (glob (p @ ''/**/*.wav''))))
            * (if train_mixtures P then 2 else 6)
      \<and> indices P =
          (if train_mixtures P then [(0, 3), (3, 0)]
           else [(0, 3), (3, 0), (1, 4), (4, 1), (2, 5), (5, 2)])"
proof -
  let ?stems = "scanned_stems glob paths"
  let ?ds = "\<lparr>ds_params = P, ds_is_training = is_training,
              ds_filenames = scan_loop (indices P) (glob_paths glob paths []) {} [],
              ds_crop_mel = crop_mel\<rparr>"
  have init: "NumpyDataset_init glob read_text paths files P crop_mel is_training = Inr ?ds"
    using assms by (simp add: NumpyDataset_init_def Let_def)
  have names: "ds_filenames ?ds = concat (map (scan_pairs (indices P)) ?stems)"
    by (simp add: scan_loop_eq glob_paths_eq scanned_stems_def)
  have pairs: "scan_pairs (indices P) = (\<lambda>b.
            if train_mixtures P
            then [(b @ ''.0.wav'', b @ ''.3.wav''), (b @ ''.3.wav'', b @ ''.0.wav'')]
            else [(b @ ''.0.wav'', b @ ''.3.wav''), (b @ ''.3.wav'', b @ ''.0.wav''),
                  (b @ ''.1.wav'', b @ ''.4.wav''), (b @ ''.4.wav'', b @ ''.1.wav''),
                  (b @ ''.2.wav'', b @ ''.5.wav''), (b @ ''.5.wav'', b @ ''.2.wav'')])"
    by (rule ext) (simp add: scan_pairs_mixtures scan_pairs_full)
  have len_pairs: "length (scan_pairs (indices P) b) = (if train_mixtures P then 2 else 6)" for b
    by (simp add: pairs)
  have "length (concat (map (scan_pairs (indices P)) ?stems))
          = length ?stems * (if train_mixtures P then 2 else 6)"
    by (rule length_concat_const) (rule len_pairs)
  moreover have "length ?stems
          = card (base_filename ` (\<Union>p \<in> set paths. set (glob (p @ ''/**/*.wav''))))"
    by (simp add: scanned_stems_def length_dedup_first)
  ultimately have size: "NumpyDataset_len ?ds =
          card (base_filename ` (\<Union>p \<in> set paths. set (glob (p @ ''/**/*.wav''))))
            * (if train_mixtures P then 2 else 6)"
    unfolding NumpyDataset_len_def names by simp
  have "indices P =
          (if train_mixtures P then [(0, 3), (3, 0)]
           else [(0, 3), (3, 0), (1, 4), (4, 1), (2, 5), (5, 2)])"
    by (simp add: indices_def)
  with init names size pairs show ?thesis
    by (intro exI[of _ ?ds]) simp
qed

lemma str_int_digit: "0 \<le> t \<Longrightarrow> t \<le> 9 \<Longrightarrow> length (str_int t) = 1"
  by (simp add: str_int_def str_nat.simps)

lemma base_filename_wav_name:
  "0 \<le> t \<Longrightarrow> t \<le> 9 \<Longrightarrow> base_filename (wav_name (s, t)) = s"
  using str_int_digit[of t] by (simp add: base_filename_def wav_name_def)

lemma stems_of_named:
  assumes "\<forall>st \<in> set named. 0 \<le> snd st \<and> snd st \<le> 9"
  shows "map base_filename (map wav_name named) = map fst named"
  using assms by (induction named) (auto simp: base_filename_wav_name)

text \<open>
  Claim C1. In scanning mode (\<open>not files\<close>), when the files found are the files
  \<open>s.t.wav\<close> of a list of (stem, tag) pairs with one-digit tags, the constructor succeeds
  and the index is the concatenation, over the stems with duplicates removed (the first
  occurrence wins and the order of first occurrences is kept), of the pairs of the active
  regime, each path being the stem followed by \<open>.<tag>.wav\<close>; its size is the number
  of distinct stems times 2 (\<open>train_mixtures\<close>) or 6 (otherwise).
\<close>

theorem C1_scan_index_size:
  assumes "not_files files"
      and "concat (map (\<lambda>p. glob (p @ ''/**/*.wav'')) paths) = map wav_name named"
      and "\<forall>st \<in> set named. 0 \<le> snd st \<and> snd st \<le> 9"
  shows "\<exists>ds. NumpyDataset_init glob read_text paths files P crop_mel is_training = Inr ds
      \<and> ds_filenames ds =
          concat (map (\<lambda>s.
            if train_mixtures P
            then [(s @ ''.0.wav'', s @ ''.3.wav''), (s @ ''.3.wav'', s @ ''.0.wav'')]
            else [(s @ ''.0.wav'', s @ ''.3.wav''), (s @ ''.3.wav'', s @ ''.0.wav''),
                  (s @ ''.1.wav'', s @ ''.4.wav''), (s @ ''.4.wav'', s @ ''.1.wav''),
                  (s @ ''.2.wav'', s @ ''.5.wav''), (s @ ''.5.wav'', s @ ''.2.wav'')])
            (dedup_first (map fst named)))
      \<and> NumpyDataset_len ds = card (fst ` set named) * (if train_mixtures P then 2 else 6)
      \<and> indices P =
          (if train_mixtures P then [(0, 3), (3, 0)]
           else [(0, 3), (3, 0), (1, 4), (4, 1), (2, 5), (5, 2)])"
proof -
  have stems: "scanned_stems glob paths = dedup_first (map fst named)"
    unfolding scanned_stems_def assms(2) stems_of_named[OF assms(3)] ..
  have imgs: "base_filename ` (\<Union>p \<in> set paths. set (glob (p @ ''/**/*.wav''))) = fst ` set named"
  proof -
    have "(\<Union>p \<in> set paths. set (glob (p @ ''/**/*.wav'')))
            = set (concat (map (\<lambda>p. glob (p @ ''/**/*.wav'')) paths))" by simp
    also have "\<dots> = set (map wav_name named)" by (simp only: assms(2))
    finally have "base_filename ` (\<Union>p \<in> set paths. set (glob (p @ ''/**/*.wav'')))
            = set (map base_filename (map wav_name named))" by (simp only: set_map)
    then show ?thesis by (simp only: stems_of_named[OF assms(3)] set_map)
  qed
  from scan_index_by_base_filename[OF assms(1), of glob read_text paths P crop_mel is_training]
  show ?thesis unfolding stems imgs .
qed

lemma two_group_names:
  "concat (map (\<lambda>p. two_group_glob (p @ ''/**/*.wav'')) [''d'', ''e'']) = map wav_name two_group_named"
  by (simp add: two_group_glob_def two_group_named_def wav_name_def str_int_def str_nat.simps
        digit_char_def)

lemma two_group_tags: "\<forall>st \<in> set two_group_named. 0 \<le> snd st \<and> snd st \<le> 9"
  by (simp add: two_group_named_def)

lemma two_group_stems: "dedup_first (map fst two_group_named) = [''d/songB'', ''d/songA'']"
  by (simp add: two_group_named_def)

text \<open>
  C1 at five files of two groups found under two roots, the group found first being
  \<open>songB\<close>: twelve examples, those of \<open>songB\<close> first.
\<close>

theorem C1_scan_index_size_witness:
  "\<exists>ds. NumpyDataset_init two_group_glob (\<lambda>f. Inl OSError) [''d'', ''e''] None full_params None True
          = Inr ds
      \<and> ds_filenames ds =
           [(''d/songB.0.wav'', ''d/songB.3.wav''), (''d/songB.3.wav'', ''d/songB.0.wav''),
            (''d/songB.1.wav'', ''d/songB.4.wav''), (''d/songB.4.wav'', ''d/songB.1.wav''),
            (''d/songB.2.wav'', ''d/songB.5.wav''), (''d/songB.5.wav'', ''d/songB.2.wav''),
            (''d/songA.0.wav'', ''d/songA.3.wav''), (''d/songA.3.wav'', ''d/songA.0.wav''),
            (''d/songA.1.wav'', ''d/songA.4.wav''), (''d/songA.4.wav'', ''d/songA.1.wav''),
            (''d/songA.2.wav'', ''d/songA.5.wav''), (''d/songA.5.wav'', ''d/songA.2.wav'')]
      \<and> NumpyDataset_len ds = 2 * 6"
proof -
  have h: "not_files None" by (simp add: not_files_def)
  have "card (set (map fst two_group_named)) = length (dedup_first (map fst two_group_named))"
    by (simp only: length_dedup_first)
  then have card2: "card (fst ` set two_group_named) = 2"
    by (simp only: two_group_stems set_map) simp
  from C1_scan_index_size[OF h two_group_names two_group_tags, of "\<lambda>f. Inl OSError" full_params None True]
  obtain ds where
    ds: "NumpyDataset_init two_group_glob (\<lambda>f. Inl OSError) [''d'', ''e''] None full_params None True
          = Inr ds"
    and names: "ds_filenames ds =
          concat (map (\<lambda>s.
            if train_mixtures full_params
            then [(s @ ''.0.wav'', s @ ''.3.wav''), (s @ ''.3.wav'', s @ ''.0.wav'')]
            else [(s @ ''.0.wav'', s @ ''.3.wav''), (s @ ''.3.wav'', s @ ''.0.wav''),
                  (s @ ''.1.wav'', s @ ''.4.wav''), (s @ ''.4.wav'', s @ ''.1.wav''),
                  (s @ ''.2.wav'', s @ ''.5.wav''), (s @ ''.5.wav'', s @ ''.2.wav'')])
            (dedup_first (map fst two_group_named)))"
    and size: "NumpyDataset_len ds
                 = card (fst ` set two_group_named) * (if train_mixtures full_params then 2 else 6)"
    by blast
  from names have "ds_filenames ds =
           [(''d/songB.0.wav'', ''d/songB.3.wav''), (''d/songB.3.wav'', ''d/songB.0.wav''),
            (''d/songB.1.wav'', ''d/songB.4.wav''), (''d/songB.4.wav'', ''d/songB.1.wav''),
            (''d/songB.2.wav'', ''d/songB.5.wav''), (''d/songB.5.wav'', ''d/songB.2.wav''),
            (''d/songA.0.wav'', ''d/songA.3.wav''), (''d/songA.3.wav'', ''d/songA.0.wav''),
            (''d/songA.1.wav'', ''d/songA.4.wav''), (''d/songA.4.wav'', ''d/songA.1.wav''),
            (''d/songA.2.wav'', ''d/songA.5.wav''), (''d/songA.5.wav'', ''d/songA.2.wav'')]"
    unfolding two_group_stems by (simp add: full_params_def)
  moreover from size have "NumpyDataset_len ds = 2 * 6"
    unfolding card2 by (simp add: full_params_def)
  ultimately show ?thesis using ds by blast
qed

lemma lines_loop_eq:
  "lines_loop idx path xs acc =
     acc @ concat (map (list_pairs idx path) (filter (\<lambda>x. x \<noteq> []) xs))"
  by (induction xs arbitrary: acc) auto

lemma files_loop_eq:
  "\<forall>(path, f) \<in> set pfs. read_text f = Inr (contents f) \<Longrightarrow>
   files_loop read_text idx pfs acc =
     Inr (acc @ concat (map (\<lambda>(path, f).
            concat (map (list_pairs idx path) (filter (\<lambda>x. x \<noteq> []) (split_nl (contents f))))) pfs))"
proof (induction pfs arbitrary: acc)
  case Nil
  then show ?case by simp
next
  case (Cons pf pfs)
  obtain path f where pf: "pf = (path, f)" by (cases pf)
  from Cons.prems pf have rd: "read_text f = Inr (contents f)" by simp
  from Cons.prems have rest: "\<forall>(path, f) \<in> set pfs. read_text f = Inr (contents f)" by simp
  show ?case
    using Cons.IH[OF rest] by (simp add: pf rd lines_loop_eq)
qed

text \<open>
  Claim C9. In list-file mode (\<open>files\<close> a non-empty list): when the directories and the
  list files differ in number the constructor fails with the assertion error and builds no
  dataset; when they agree and every list file can be read, directories and list files are
  paired by position and every non-empty line of a list file gives the pairs of the active
  regime, the empty lines giving nothing.
\<close>

theorem C9_list_mode:
  assumes "files = Some fs" and "fs \<noteq> []"
  shows "(length fs \<noteq> length paths \<longrightarrow>
            NumpyDataset_init glob read_text paths files P crop_mel is_training = Inl AssertionError)
       \<and> (length fs = length paths \<and> (\<forall>f \<in> set fs. read_text f = Inr (contents f)) \<longrightarrow>
            (\<exists>ds. NumpyDataset_init glob read_text paths files P crop_mel is_training = Inr ds
               \<and> ds_filenames ds =
                   concat (map (\<lambda>(path, f).
                     concat (map (list_pairs (indices P) path)
                       (filter (\<lambda>x. x \<noteq> []) (split_nl (contents f))))) (zip paths fs))))"
proof (intro conjI impI)
  assume "length fs \<noteq> length paths"
  with assms show "NumpyDataset_init glob read_text paths files P crop_mel is_training = Inl AssertionError"
    by (simp add: NumpyDataset_init_def not_files_def)
next
  assume eq: "length fs = length paths \<and> (\<forall>f \<in> set fs. read_text f = Inr (contents f))"
  then have "\<forall>(path, f) \<in> set (zip paths fs). read_text f = Inr (contents f)"
    by (auto dest: set_zip_rightD)
  from files_loop_eq[OF this, of "indices P" "[]"] eq assms
  show "\<exists>ds. NumpyDataset_init glob read_text paths files P crop_mel is_training = Inr ds
               \<and> ds_filenames ds =
                   concat (map (\<lambda>(path, f).
                     concat (map (list_pairs (indices P) path)
                       (filter (\<lambda>x. x \<noteq> []) (split_nl (contents f))))) (zip paths fs))"
    by (simp add: NumpyDataset_init_def not_files_def)
qed

lemma split_train_list: "split_nl (train_list f) = [''s'', [], ''t'', []]"
  by (simp add: train_list_def)

theorem C9_list_mode_witness:
  "NumpyDataset_init (\<lambda>p. []) (\<lambda>f. Inr (train_list f)) [''d'', ''e''] (Some [''l'']) mix_params None True
     = Inl AssertionError
   \<and> (\<exists>ds. NumpyDataset_init (\<lambda>p. []) (\<lambda>f. Inr (train_list f)) [''d''] (Some [''l'']) mix_params None True = Inr ds
        \<and> ds_filenames ds =
            [(''d/s.0.wav'', ''d/s.3.wav''), (''d/s.3.wav'', ''d/s.0.wav''),
             (''d/t.0.wav'', ''d/t.3.wav''), (''d/t.3.wav'', ''d/t.0.wav'')])"
proof -
  have a: "Some [''l''] = Some [''l'']" and b: "[''l''] \<noteq> []" by simp_all
  have pairs: "list_pairs (indices mix_params) ''d'' x =
      (if x \<noteq> [] \<and> hd x = CHR ''/'' then [(x @ ''.0.wav'', x @ ''.3.wav''), (x @ ''.3.wav'', x @ ''.0.wav'')]
       else [(''d/'' @ x @ ''.0.wav'', ''d/'' @ x @ ''.3.wav''), (''d/'' @ x @ ''.3.wav'', ''d/'' @ x @ ''.0.wav'')])" for x
    by (cases x) (simp_all add: list_pairs_def indices_def mix_params_def str_int_def str_nat.simps
          digit_char_def os_path_join_def)
  have 1: "NumpyDataset_init (\<lambda>p. []) (\<lambda>f. Inr (train_list f)) [''d'', ''e''] (Some [''l'']) mix_params None True
     = Inl AssertionError"
    using C9_list_mode[OF a b, where paths = "[''d'', ''e'']" and glob = "\<lambda>p. []"
        and read_text = "\<lambda>f. Inr (train_list f)" and P = mix_params and crop_mel = None
        and is_training = True and contents = train_list]
    by simp
  have 2: "\<exists>ds. NumpyDataset_init (\<lambda>p. []) (\<lambda>f. Inr (train_list f)) [''d''] (Some [''l'']) mix_params None True = Inr ds
        \<and> ds_filenames ds =
            [(''d/s.0.wav'', ''d/s.3.wav''), (''d/s.3.wav'', ''d/s.0.wav''),
             (''d/t.0.wav'', ''d/t.3.wav''), (''d/t.3.wav'', ''d/t.0.wav'')]"
    using C9_list_mode[OF a b, where paths = "[''d'']" and glob = "\<lambda>p. []"
        and read_text = "\<lambda>f. Inr (train_list f)" and P = mix_params and crop_mel = None
        and is_training = True and contents = train_list]
    by (simp add: split_train_list pairs)
  from 1 2 show ?thesis by simp
qed

section \<open>Properties of tensors\<close>

lemma shape_tensor_T [simp]: "shape (tensor_T t) = rev (shape t)"
  by (simp add: tensor_T_def Let_def)

lemma tensor_len_of_wave: "tensor_len (of_wave w) = Inr (length w)"
  by (simp add: tensor_len_def of_wave_def)

lemma wf_of_wave: "wf_tensor (of_wave w)"
  by (simp add: wf_tensor_def of_wave_def)

lemma wf_tensor_T: "wf_tensor (tensor_T t)"
  by (simp add: wf_tensor_def tensor_T_def Let_def)

section \<open>Properties of the example transform\<close>

lemma randint_in_range:
  "a \<le> b \<Longrightarrow> \<exists>s. randint u a b = Inr s \<and> a \<le> s \<and> s \<le> b"
proof -
  assume ab: "a \<le> b"
  then have pos: "0 < nat (b - a + 1)" by simp
  have "u mod nat (b - a + 1) < nat (b - a + 1)" using pos by (rule mod_less_divisor)
  then have "int (u mod nat (b - a + 1)) \<le> b - a" using ab by linarith
  with ab show ?thesis by (simp add: randint_def)
qed

lemma randint_cover:
  "a \<le> s \<Longrightarrow> s \<le> b \<Longrightarrow> randint (nat (s - a)) a b = Inr s"
  by (simp add: randint_def)

lemma py_slice_window:
  assumes "0 \<le> s" and "0 \<le> l" and "s + l \<le> int (length xs)"
  shows "py_slice xs s (s + l) = take (nat l) (drop (nat s) xs)"
proof -
  have "slice_bound (int (length xs)) s = s" using assms by (simp add: slice_bound_def)
  moreover have "slice_bound (int (length xs)) (s + l) = s + l"
    using assms by (simp add: slice_bound_def)
  ultimately show ?thesis by (simp add: py_slice_def Let_def)
qed

lemma py_slice_window_length:
  assumes "0 \<le> s" and "0 \<le> l" and "s + l \<le> int (length xs)"
  shows "length (py_slice xs s (s + l)) = nat l"
  using assms by (simp add: py_slice_window)

lemma py_slice_window_nth:
  assumes "0 \<le> s" and "0 \<le> l" and "s + l \<le> int (length xs)" and "k < nat l"
  shows "py_slice xs s (s + l) ! k = xs ! (nat s + k)"
  using assms by (simp add: py_slice_window)

lemma crop_len_unfold: "(effective_crop_mel c P - 1) * hop_samples P = crop_len P c"
  by (simp add: crop_len_def)

lemma crop_long:
  assumes "crop_len P c \<le> int (length w1)"
  shows "\<exists>start. 0 \<le> start \<and> start \<le> int (length w1) - crop_len P c
           \<and> crop P c u w1 w2 = Inr (py_slice w1 start (start + crop_len P c),
                                      py_slice w2 start (start + crop_len P c))"
proof -
  from assms have "0 \<le> int (length w1) - crop_len P c" by simp
  from randint_in_range[OF this, of u] obtain start where
    r: "randint u 0 (int (length w1) - crop_len P c) = Inr start"
    and lo: "0 \<le> start" and hi: "start \<le> int (length w1) - crop_len P c"
    by blast
  from assms r have "crop P c u w1 w2 = Inr (py_slice w1 start (start + crop_len P c),
                                      py_slice w2 start (start + crop_len P c))"
    by (simp add: crop_def Let_def crop_len_unfold)
  with lo hi show ?thesis by blast
qed

lemma crop_cover:
  assumes "crop_len P c \<le> int (length w1)" and "0 \<le> s" and "s \<le> int (length w1) - crop_len P c"
  shows "crop P c (nat s) w1 w2 = Inr (py_slice w1 s (s + crop_len P c), py_slice w2 s (s + crop_len P c))"
proof -
  from randint_cover[of 0 s "int (length w1) - crop_len P c"] assms
  have "randint (nat s) 0 (int (length w1) - crop_len P c) = Inr s" by simp
  with assms(1) show ?thesis by (simp add: crop_def Let_def crop_len_unfold)
qed

lemma crop_short:
  "int (length w1) < crop_len P c \<Longrightarrow> crop P c u w1 w2 = Inr (w1, w2)"
  by (simp add: crop_def Let_def crop_len_unfold)

lemma crop_total: "\<exists>c1 c2. crop P c u w1 w2 = Inr (c1, c2)"
proof (cases "crop_len P c \<le> int (length w1)")
  case True
  from crop_long[OF True, of u w2] show ?thesis by blast
next
  case False
  then show ?thesis by (simp add: crop_short)
qed

text \<open>
  Claim C3. For two waveforms of equal length and \<open>L = crop_len = (crop_mel - 1) * hop_samples\<close>:
  when the length is at least \<open>L\<close>, the crop step succeeds with one \<open>start\<close> of the
  inclusive range from 0 to length minus \<open>L\<close> and cuts both waveforms to the same slice
  \<open>[start : start + L]\<close>; for \<open>L \<ge> 0\<close> both results have \<open>L\<close> samples and sample \<open>k\<close> of
  each is sample \<open>start + k\<close> of its source, so the pair stays aligned. Every offset of
  the range is the one chosen for some draw of the random generator. When the length is
  below \<open>L\<close> both waveforms are returned unchanged.
\<close>

theorem C3_crop_window:
  assumes "length w1 = length w2"
  shows "(crop_len P c \<le> int (length w1) \<longrightarrow>
            (\<exists>start. 0 \<le> start \<and> start \<le> int (length w1) - crop_len P c
               \<and> crop P c u w1 w2 = Inr (py_slice w1 start (start + crop_len P c),
                                          py_slice w2 start (start + crop_len P c))
               \<and> (0 \<le> crop_len P c \<longrightarrow>
                      length (py_slice w1 start (start + crop_len P c)) = nat (crop_len P c)
                    \<and> length (py_slice w2 start (start + crop_len P c)) = nat (crop_len P c)
                    \<and> (\<forall>k < nat (crop_len P c).
                          py_slice w1 start (start + crop_len P c) ! k = w1 ! (nat start + k)
                        \<and> py_slice w2 start (start + crop_len P c) ! k = w2 ! (nat start + k)))))
       \<and> (\<forall>s. crop_len P c \<le> int (length w1) \<and> 0 \<le> s \<and> s \<le> int (length w1) - crop_len P c \<longrightarrow>
            (\<exists>u'. crop P c u' w1 w2 = Inr (py_slice w1 s (s + crop_len P c),
                                           py_slice w2 s (s + crop_len P c))))
       \<and> (int (length w1) < crop_len P c \<longrightarrow> crop P c u w1 w2 = Inr (w1, w2))"
proof (intro conjI impI allI)
  assume long: "crop_len P c \<le> int (length w1)"
  from crop_long[OF long, of u w2] obtain start where
    lo: "0 \<le> start" and hi: "start \<le> int (length w1) - crop_len P c"
    and cr: "crop P c u w1 w2 = Inr (py_slice w1 start (start + crop_len P c),
                                      py_slice w2 start (start + crop_len P c))"
    by blast
  have win: "length (py_slice w1 start (start + crop_len P c)) = nat (crop_len P c)
           \<and> length (py_slice w2 start (start + crop_len P c)) = nat (crop_len P c)
           \<and> (\<forall>k < nat (crop_len P c).
                  py_slice w1 start (start + crop_len P c) ! k = w1 ! (nat start + k)
                \<and> py_slice w2 start (start + crop_len P c) ! k = w2 ! (nat start + k))"
    if nn: "0 \<le> crop_len P c"
  proof -
    from hi have b1: "start + crop_len P c \<le> int (length w1)" by simp
    with assms have b2: "start + crop_len P c \<le> int (length w2)" by simp
    show ?thesis
      using py_slice_window_length[OF lo nn b1] py_slice_window_length[OF lo nn b2]
        py_slice_window_nth[OF lo nn b1] py_slice_window_nth[OF lo nn b2]
      by blast
  qed
  from lo hi cr win
  show "\<exists>start. 0 \<le> start \<and> start \<le> int (length w1) - crop_len P c
               \<and> crop P c u w1 w2 = Inr (py_slice w1 start (start + crop_len P c),
                                          py_slice w2 start (start + crop_len P c))
               \<and> (0 \<le> crop_len P c \<longrightarrow>
                      length (py_slice w1 start (start + crop_len P c)) = nat (crop_len P c)
                    \<and> length (py_slice w2 start (start + crop_len P c)) = nat (crop_len P c)
                    \<and> (\<forall>k < nat (crop_len P c).
                          py_slice w1 start (start + crop_len P c) ! k = w1 ! (nat start + k)
                        \<and> py_slice w2 start (start + crop_len P c) ! k = w2 ! (nat start + k)))"
    by blast
next
  fix s
  assume "crop_len P c \<le> int (length w1) \<and> 0 \<le> s \<and> s \<le> int (length w1) - crop_len P c"
  then have "crop P c (nat s) w1 w2 = Inr (py_slice w1 s (s + crop_len P c),
                                           py_slice w2 s (s + crop_len P c))"
    by (simp add: crop_cover)
  then show "\<exists>u'. crop P c u' w1 w2 = Inr (py_slice w1 s (s + crop_len P c),
                                           py_slice w2 s (s + crop_len P c))" ..
next
  assume "int (length w1) < crop_len P c"
  then show "crop P c u w1 w2 = Inr (w1, w2)" by (rule crop_short)
qed

lemma normalize_inf_error: "normalize_inf sig = Inl e \<Longrightarrow> e = RuntimeError"
  by (auto simp: normalize_inf_def split: if_splits)

lemma pad_and_pack_error: "pad_and_pack P s c1 c2 = Inl e \<Longrightarrow> e = RuntimeError"
  by (auto simp: pad_and_pack_def torch_zeros_def split: if_splits)

lemma pad_and_pack_ok:
  "0 \<le> hop_samples P \<Longrightarrow>
   pad_and_pack P s c1 c2 =
     Inr (transformed_example
            (PyTensor (of_wave (c2 @ replicate (nat (hop_samples P)) 0)))
            (case s of None \<Rightarrow> PyNone | Some m \<Rightarrow> PyTensor (tensor_T (squeeze0 m)))
            (PyTensor (of_wave (c1 @ replicate (nat (hop_samples P)) 0))))"
  by (simp add: pad_and_pack_def torch_zeros_def)

lemma pad_and_pack_result:
  "pad_and_pack P s c1 c2 = Inr r \<Longrightarrow>
   0 \<le> hop_samples P \<and>
   r = transformed_example
            (PyTensor (of_wave (c2 @ replicate (nat (hop_samples P)) 0)))
            (case s of None \<Rightarrow> PyNone | Some m \<Rightarrow> PyTensor (tensor_T (squeeze0 m)))
            (PyTensor (of_wave (c1 @ replicate (nat (hop_samples P)) 0)))"
  by (auto simp: pad_and_pack_def torch_zeros_def split: if_splits)

lemma getitem_loaded:
  assumes "list_index (ds_filenames ds) idx = Inr (f1, f2)"
      and "load f1 = Inr (signal1, sr1)" and "load f2 = Inr (signal2, sr2)"
  shows "NumpyDataset_getitem load get_spec u ds idx =
          (if sample_rate (ds_params ds) \<noteq> sr1 \<or> sample_rate (ds_params ds) \<noteq> sr2
           then Inl (ValueError (sample_rate_message sr1 sr2 (sample_rate (ds_params ds))))
           else if shape2 signal1 \<noteq> shape2 signal2 then Inl AssertionError
           else if \<not> (fst (shape2 signal1) = 1 \<and> fst (shape2 signal2) = 1) then Inl AssertionError
           else
             (case normalize_inf signal1 of
                Inl e \<Rightarrow> Inl e
              | Inr n1 \<Rightarrow>
             (case normalize_inf signal2 of
                Inl e \<Rightarrow> Inl e
              | Inr n2 \<Rightarrow>
             (case crop (ds_params ds) (ds_crop_mel ds) u (scale_squeeze n1) (scale_squeeze n2) of
                Inl e \<Rightarrow> Inl e
              | Inr (c1, c2) \<Rightarrow>
                  pad_and_pack (ds_params ds) (try_get_spec get_spec c1 (ds_params ds)) c1 c2))))"
  using assms by (simp add: NumpyDataset_getitem_def)

text \<open>
  Claim C2. Once both files are decoded: if either sample rate differs from the configured
  one, \<open>__getitem__\<close> raises the \<open>ValueError\<close> whose message spells out both observed
  rates (and the configured one); if both equal the configured rate, no \<open>ValueError\<close> is
  raised at all.
\<close>

theorem C2_sample_rate_check:
  assumes "list_index (ds_filenames ds) idx = Inr (f1, f2)"
      and "load f1 = Inr (signal1, sr1)" and "load f2 = Inr (signal2, sr2)"
  shows "(sample_rate (ds_params ds) \<noteq> sr1 \<or> sample_rate (ds_params ds) \<noteq> sr2 \<longrightarrow>
            NumpyDataset_getitem load get_spec u ds idx =
              Inl (ValueError (''Invalid sample rate: sr1 = '' @ str_int sr1 @ '' and sr2 = ''
                     @ str_int sr2 @ '' while sample rate in params is ''
                     @ str_int (sample_rate (ds_params ds)) @ ''.'')))
       \<and> (sample_rate (ds_params ds) = sr1 \<and> sample_rate (ds_params ds) = sr2 \<longrightarrow>
            (\<forall>msg. NumpyDataset_getitem load get_spec u ds idx \<noteq> Inl (ValueError msg)))"
proof (intro conjI impI allI)
  assume "sample_rate (ds_params ds) \<noteq> sr1 \<or> sample_rate (ds_params ds) \<noteq> sr2"
  then show "NumpyDataset_getitem load get_spec u ds idx =
              Inl (ValueError (''Invalid sample rate: sr1 = '' @ str_int sr1 @ '' and sr2 = ''
                     @ str_int sr2 @ '' while sample rate in params is ''
                     @ str_int (sample_rate (ds_params ds)) @ ''.''))"
    unfolding getitem_loaded[OF assms] by (simp add: sample_rate_message_def)
next
  fix msg
  assume eq: "sample_rate (ds_params ds) = sr1 \<and> sample_rate (ds_params ds) = sr2"
  show "NumpyDataset_getitem load get_spec u ds idx \<noteq> Inl (ValueError msg)"
  proof
    assume bad: "NumpyDataset_getitem load get_spec u ds idx = Inl (ValueError msg)"
    from bad eq obtain n1 n2 where
      n1: "normalize_inf signal1 = Inr n1" and n2: "normalize_inf signal2 = Inr n2"
      and rest: "(case crop (ds_params ds) (ds_crop_mel ds) u (scale_squeeze n1) (scale_squeeze n2) of
                Inl e \<Rightarrow> Inl e
              | Inr (c1, c2) \<Rightarrow>
                  pad_and_pack (ds_params ds) (try_get_spec get_spec c1 (ds_params ds)) c1 c2)
             = Inl (ValueError msg)"
      unfolding getitem_loaded[OF assms]
      by (auto split: if_splits sum.splits dest: normalize_inf_error)
    from crop_total[of "ds_params ds" "ds_crop_mel ds" u "scale_squeeze n1" "scale_squeeze n2"]
    obtain c1 c2 where
      "crop (ds_params ds) (ds_crop_mel ds) u (scale_squeeze n1) (scale_squeeze n2) = Inr (c1, c2)"
      by blast
    with rest have "pad_and_pack (ds_params ds) (try_get_spec get_spec c1 (ds_params ds)) c1 c2
             = Inl (ValueError msg)" by simp
    from pad_and_pack_error[OF this] show False by simp
  qed
qed

lemma normalize_inf_single: "w \<noteq> [] \<Longrightarrow> normalize_inf [w] = Inr [normalize_row w]"
  by (simp add: normalize_inf_def)

lemma length_normalize_row [simp]: "length (normalize_row w) = length w"
  by (simp add: normalize_row_def)

lemma length_scale_squeeze [simp]: "length (scale_squeeze [w]) = length w"
  by (simp add: scale_squeeze_def)

text \<open>
  Claim C6. For an input that passes the sample-rate and shape checks (one channel each,
  equal lengths), with a non-empty waveform and a non-negative hop size: the crop step
  yields a pair \<open>(c1, c2)\<close>, and whatever error the extractor raises on \<open>c1\<close>, the
  transform returns normally, with the spectrogram \<open>None\<close> and with \<open>audio\<close> and
  \<open>audio_cond_inst\<close> the two cropped waveforms padded with \<open>hop_samples\<close> zeros.
\<close>

theorem C6_extraction_failure_absorbed:
  assumes "list_index (ds_filenames ds) idx = Inr (f1, f2)"
      and "load f1 = Inr ([w1], sample_rate (ds_params ds))"
      and "load f2 = Inr ([w2], sample_rate (ds_params ds))"
      and "length w1 = length w2" and "w1 \<noteq> []"
      and "0 \<le> hop_samples (ds_params ds)"
  shows "\<exists>c1 c2.
           crop (ds_params ds) (ds_crop_mel ds) u
             (scale_squeeze [normalize_row w1]) (scale_squeeze [normalize_row w2]) = Inr (c1, c2)
         \<and> (\<forall>e. get_spec c1 (ds_params ds) = Inl e \<longrightarrow>
               NumpyDataset_getitem load get_spec u ds idx =
                 Inr (transformed_example
                        (PyTensor (of_wave (c2 @ replicate (nat (hop_samples (ds_params ds))) 0)))
                        PyNone
                        (PyTensor (of_wave (c1 @ replicate (nat (hop_samples (ds_params ds))) 0)))))"
proof -
  from crop_total obtain c1 c2 where
    cr: "crop (ds_params ds) (ds_crop_mel ds) u
           (scale_squeeze [normalize_row w1]) (scale_squeeze [normalize_row w2]) = Inr (c1, c2)"
    by blast
  from assms(4,5) have w2: "w2 \<noteq> []" by auto
  have "NumpyDataset_getitem load get_spec u ds idx =
          Inr (transformed_example
                 (PyTensor (of_wave (c2 @ replicate (nat (hop_samples (ds_params ds))) 0)))
                 PyNone
                 (PyTensor (of_wave (c1 @ replicate (nat (hop_samples (ds_params ds))) 0))))"
    if fail: "get_spec c1 (ds_params ds) = Inl e" for e
  proof -
    from fail have none: "try_get_spec get_spec c1 (ds_params ds) = None"
      by (simp add: try_get_spec_def)
    show ?thesis
      unfolding getitem_loaded[OF assms(1-3)]
      using assms(4,5) w2 cr none pad_and_pack_ok[OF assms(6), of None c1 c2]
      by (simp add: shape2_def normalize_inf_single)
  qed
  with cr show ?thesis by blast
qed

lemma squeeze0_mel:
  "shape m = [1, b, n] \<Longrightarrow> shape (tensor_T (squeeze0 m)) = [n, b]"
  by (simp add: squeeze0_def)

text \<open>
  Claim C7. Under the extractor's contract, every dictionary returned by \<open>__getitem__\<close>
  holds an \<open>audio\<close> of length \<open>length c2 + hop_samples\<close> and an \<open>audio_cond_inst\<close> of
  length \<open>length c1 + hop_samples\<close>, where \<open>(c1, c2)\<close> are the waveforms after the crop step
  and both are followed by exactly \<open>hop_samples\<close> zeros; and a spectrogram that is present
  has a leading (time) dimension of at least one.
\<close>

theorem C7_padded_lengths:
  assumes "get_spec_contract get_spec (ds_params ds)"
      and "list_index (ds_filenames ds) idx = Inr (f1, f2)"
      and "load f1 = Inr (signal1, sr1)" and "load f2 = Inr (signal2, sr2)"
      and "NumpyDataset_getitem load get_spec u ds idx = Inr r"
  shows "\<exists>c1 c2 a s c.
           crop (ds_params ds) (ds_crop_mel ds) u
             (scale_squeeze (map normalize_row signal1)) (scale_squeeze (map normalize_row signal2))
             = Inr (c1, c2)
         \<and> r = transformed_example (PyTensor a) s (PyTensor c)
         \<and> 0 \<le> hop_samples (ds_params ds)
         \<and> a = of_wave (c2 @ replicate (nat (hop_samples (ds_params ds))) 0)
         \<and> c = of_wave (c1 @ replicate (nat (hop_samples (ds_params ds))) 0)
         \<and> tensor_len a = Inr (length c2 + nat (hop_samples (ds_params ds)))
         \<and> tensor_len c = Inr (length c1 + nat (hop_samples (ds_params ds)))
         \<and> (case s of
              PyNone \<Rightarrow> True
            | PyTensor t \<Rightarrow> (\<exists>n. tensor_len t = Inr n \<and> 1 \<le> n))"
proof -
  let ?P = "ds_params ds"
  from assms(5) obtain n1 n2 where
    n1: "normalize_inf signal1 = Inr n1" and n2: "normalize_inf signal2 = Inr n2"
    and rest: "(case crop ?P (ds_crop_mel ds) u (scale_squeeze n1) (scale_squeeze n2) of
                Inl e \<Rightarrow> Inl e
              | Inr (c1, c2) \<Rightarrow> pad_and_pack ?P (try_get_spec get_spec c1 ?P) c1 c2) = Inr r"
    unfolding getitem_loaded[OF assms(2-4)]
    by (auto split: if_splits sum.splits)
  from n1 have e1: "n1 = map normalize_row signal1"
    by (auto simp: normalize_inf_def split: if_splits)
  from n2 have e2: "n2 = map normalize_row signal2"
    by (auto simp: normalize_inf_def split: if_splits)
  from crop_total obtain c1 c2 where
    cr: "crop ?P (ds_crop_mel ds) u (scale_squeeze n1) (scale_squeeze n2) = Inr (c1, c2)"
    by blast
  with rest have pp: "pad_and_pack ?P (try_get_spec get_spec c1 ?P) c1 c2 = Inr r" by simp
  let ?s = "case try_get_spec get_spec c1 ?P of
              None \<Rightarrow> PyNone | Some m \<Rightarrow> PyTensor (tensor_T (squeeze0 m))"
  from pad_and_pack_result[OF pp] have hop: "0 \<le> hop_samples ?P"
    and r: "r = transformed_example
            (PyTensor (of_wave (c2 @ replicate (nat (hop_samples ?P)) 0))) ?s
            (PyTensor (of_wave (c1 @ replicate (nat (hop_samples ?P)) 0)))"
    by simp_all
  have spec: "case ?s of PyNone \<Rightarrow> True | PyTensor t \<Rightarrow> (\<exists>n. tensor_len t = Inr n \<and> 1 \<le> n)"
  proof (cases "get_spec c1 ?P")
    case (Inl e)
    then show ?thesis by (simp add: try_get_spec_def)
  next
    case (Inr m)
    with assms(1) have "mel_shaped m" by (simp add: get_spec_contract_def)
    then obtain b n where sh: "shape m = [1, b, n]" and n: "1 \<le> n"
      by (auto simp: mel_shaped_def split: list.splits)
    from squeeze0_mel[OF sh] have "tensor_len (tensor_T (squeeze0 m)) = Inr n"
      by (simp only: tensor_len_def list.case)
    with Inr n show ?thesis
      by (simp add: try_get_spec_def)
  qed
  have la: "tensor_len (of_wave (c2 @ replicate (nat (hop_samples ?P)) 0))
              = Inr (length c2 + nat (hop_samples ?P))"
    and lc: "tensor_len (of_wave (c1 @ replicate (nat (hop_samples ?P)) 0))
              = Inr (length c1 + nat (hop_samples ?P))"
    by (simp_all add: tensor_len_of_wave)
  from cr[unfolded e1 e2] r hop spec la lc show ?thesis
    by (intro exI[of _ c1] exI[of _ c2]
          exI[of _ "of_wave (c2 @ replicate (nat (hop_samples ?P)) 0)"] exI[of _ ?s]
          exI[of _ "of_wave (c1 @ replicate (nat (hop_samples ?P)) 0)"]) blast
qed

lemma small_index: "list_index (ds_filenames small_ds) 0 = Inr (''a.0.wav'', ''a.3.wav'')"
  by (simp add: small_ds_def list_index_def)

lemma small_ds_params: "ds_params small_ds = small_params" "ds_crop_mel small_ds = None"
  by (simp_all add: small_ds_def)

lemma small_crop:
  "crop small_params None 1
     (scale_squeeze [normalize_row [1, - 2, 1 / 2, 0, 1, 1]])
     (scale_squeeze [normalize_row [4, 2, 0, - 1, 1, 2]])
   = Inr ([- (19 / 20), 19 / 80, 0, 19 / 40], [19 / 40, 0, - (19 / 80), 19 / 80])"
  by code_simp

text \<open>
  C2 at rates (22050, 22050) against 16000, and at matching rates.
\<close>

theorem C2_sample_rate_check_witness:
  "NumpyDataset_getitem bad_rate_load failing_get_spec 1 small_ds 0 =
     Inl (ValueError
       ''Invalid sample rate: sr1 = 22050 and sr2 = 22050 while sample rate in params is 16000.'')
   \<and> (\<forall>msg. NumpyDataset_getitem small_load failing_get_spec 1 small_ds 0 \<noteq> Inl (ValueError msg))"
proof -
  have s1: "str_int 22050 = ''22050''" and s2: "str_int 16000 = ''16000''"
    by (simp_all add: str_int_def str_nat.simps digit_char_def)
  have b: "bad_rate_load ''a.0.wav'' = Inr ([[0, 1]], 22050)"
          "bad_rate_load ''a.3.wav'' = Inr ([[0, 1]], 22050)"
    by (simp_all add: bad_rate_load_def)
  have g: "small_load ''a.0.wav'' = Inr ([[1, - 2, 1 / 2, 0, 1, 1]], 16000)"
          "small_load ''a.3.wav'' = Inr ([[4, 2, 0, - 1, 1, 2]], 16000)"
    by (simp_all add: small_load_def)
  from C2_sample_rate_check[OF small_index b, of failing_get_spec 1]
  have 1: "NumpyDataset_getitem bad_rate_load failing_get_spec 1 small_ds 0 =
     Inl (ValueError
       ''Invalid sample rate: sr1 = 22050 and sr2 = 22050 while sample rate in params is 16000.'')"
    by (simp add: small_ds_params small_params_def s1 s2)
  from C2_sample_rate_check[OF small_index g, of failing_get_spec 1]
  have 2: "\<forall>msg. NumpyDataset_getitem small_load failing_get_spec 1 small_ds 0 \<noteq> Inl (ValueError msg)"
    by (simp add: small_ds_params small_params_def)
  from 1 2 show ?thesis by simp
qed

lemma small_crop_len: "crop_len small_params None = 4"
  by (simp add: crop_len_def effective_crop_mel_def truthy_def small_params_def)

text \<open>
  C3 at six samples with \<open>L = 4\<close> (a window is cut) and at two samples (nothing is cut).
\<close>

theorem C3_crop_window_witness:
  "(\<exists>start. 0 \<le> start \<and> start \<le> 2
      \<and> crop small_params None 1 [0, 1, 2, 3, 4, 5 :: nat] [10, 11, 12, 13, 14, 15]
           = Inr (py_slice [0, 1, 2, 3, 4, 5] start (start + 4),
                  py_slice [10, 11, 12, 13, 14, 15] start (start + 4))
      \<and> length (py_slice [0, 1, 2, 3, 4, 5 :: nat] start (start + 4)) = 4
      \<and> length (py_slice [10, 11, 12, 13, 14, 15 :: nat] start (start + 4)) = 4)
   \<and> crop small_params None 1 [0, 1 :: nat] [10, 11] = Inr ([0, 1], [10, 11])"
proof -
  have l6: "length [0, 1, 2, 3, 4, 5 :: nat] = length [10, 11, 12, 13, 14, 15 :: nat]" by simp
  have l2: "length [0, 1 :: nat] = length [10, 11 :: nat]" by simp
  have long: "crop_len small_params None \<le> int (length [0, 1, 2, 3, 4, 5 :: nat])"
    and nn: "0 \<le> crop_len small_params None"
    and short: "int (length [0, 1 :: nat]) < crop_len small_params None"
    by (simp_all add: small_crop_len)
  from C3_crop_window[OF l6, of small_params None 1] long nn
  obtain start where
    s: "0 \<le> start" "start \<le> int (length [0, 1, 2, 3, 4, 5 :: nat]) - crop_len small_params None"
    and cr: "crop small_params None 1 [0, 1, 2, 3, 4, 5 :: nat] [10, 11, 12, 13, 14, 15]
           = Inr (py_slice [0, 1, 2, 3, 4, 5] start (start + crop_len small_params None),
                  py_slice [10, 11, 12, 13, 14, 15] start (start + crop_len small_params None))"
    and len: "length (py_slice [0, 1, 2, 3, 4, 5 :: nat] start (start + crop_len small_params None))
                = nat (crop_len small_params None)"
             "length (py_slice [10, 11, 12, 13, 14, 15 :: nat] start (start + crop_len small_params None))
                = nat (crop_len small_params None)"
    by blast
  from s cr len have 1: "0 \<le> start \<and> start \<le> 2
      \<and> crop small_params None 1 [0, 1, 2, 3, 4, 5 :: nat] [10, 11, 12, 13, 14, 15]
           = Inr (py_slice [0, 1, 2, 3, 4, 5] start (start + 4),
                  py_slice [10, 11, 12, 13, 14, 15] start (start + 4))
      \<and> length (py_slice [0, 1, 2, 3, 4, 5 :: nat] start (start + 4)) = 4
      \<and> length (py_slice [10, 11, 12, 13, 14, 15 :: nat] start (start + 4)) = 4"
    unfolding small_crop_len by simp
  from C3_crop_window[OF l2, of small_params None 1] short
  have 2: "crop small_params None 1 [0, 1 :: nat] [10, 11] = Inr ([0, 1], [10, 11])"
    by blast
  from 1 2 show ?thesis by blast
qed

text \<open>
  C6 at a six-sample pair with an extractor that always fails.
\<close>

theorem C6_extraction_failure_absorbed_witness:
  "NumpyDataset_getitem small_load failing_get_spec 1 small_ds 0 =
     Inr (transformed_example
            (PyTensor (Tensor [6] [19 / 40, 0, - (19 / 80), 19 / 80, 0, 0]))
            PyNone
            (PyTensor (Tensor [6] [- (19 / 20), 19 / 80, 0, 19 / 40, 0, 0])))"
proof -
  have g: "small_load ''a.0.wav'' = Inr ([[1, - 2, 1 / 2, 0, 1, 1]], sample_rate (ds_params small_ds))"
          "small_load ''a.3.wav'' = Inr ([[4, 2, 0, - 1, 1, 2]], sample_rate (ds_params small_ds))"
    by (simp_all add: small_load_def small_ds_params small_params_def)
  have len: "length [1, - 2, 1 / 2, 0, 1, 1 :: real] = length [4, 2, 0, - 1, 1, 2 :: real]"
    and ne: "[1, - 2, 1 / 2, 0, 1, 1 :: real] \<noteq> []"
    and hop: "0 \<le> hop_samples (ds_params small_ds)"
    by (simp_all add: small_ds_params small_params_def)
  from C6_extraction_failure_absorbed[OF small_index g len ne hop, of 1 failing_get_spec]
  obtain c1 c2 where
    cr: "crop small_params None 1
           (scale_squeeze [normalize_row [1, - 2, 1 / 2, 0, 1, 1]])
           (scale_squeeze [normalize_row [4, 2, 0, - 1, 1, 2]]) = Inr (c1, c2)"
    and res: "\<forall>e. failing_get_spec c1 small_params = Inl e \<longrightarrow>
               NumpyDataset_getitem small_load failing_get_spec 1 small_ds 0 =
                 Inr (transformed_example
                        (PyTensor (of_wave (c2 @ replicate (nat (hop_samples small_params)) 0)))
                        PyNone
                        (PyTensor (of_wave (c1 @ replicate (nat (hop_samples small_params)) 0))))"
    unfolding small_ds_params by blast
  from cr[unfolded small_crop]
  have c: "c1 = [- (19 / 20), 19 / 80, 0, 19 / 40]" "c2 = [19 / 40, 0, - (19 / 80), 19 / 80]"
    by simp_all
  have "failing_get_spec c1 small_params = Inl RuntimeError" by (simp add: failing_get_spec_def)
  with res show ?thesis
    by (simp add: c of_wave_def small_params_def numeral_eq_Suc)
qed

lemma framing_contract: "get_spec_contract framing_get_spec P"
  by (auto simp: get_spec_contract_def framing_get_spec_def mel_shaped_def split: if_splits)

lemma small_getitem:
  "NumpyDataset_getitem small_load framing_get_spec 1 small_ds 0 =
     Inr (transformed_example
            (PyTensor (Tensor [6] [19 / 40, 0, - (19 / 80), 19 / 80, 0, 0]))
            (PyTensor (Tensor [3, 1] [0, 0, 0]))
            (PyTensor (Tensor [6] [- (19 / 20), 19 / 80, 0, 19 / 40, 0, 0])))"
  by code_simp

text \<open>
  C7 at a six-sample pair cropped to four samples, with hop size two.
\<close>

theorem C7_padded_lengths_witness:
  "\<exists>a s c.
     NumpyDataset_getitem small_load framing_get_spec 1 small_ds 0
       = Inr (transformed_example (PyTensor a) s (PyTensor c))
     \<and> tensor_len a = Inr (4 + 2) \<and> tensor_len c = Inr (4 + 2)
     \<and> (case s of PyNone \<Rightarrow> True | PyTensor t \<Rightarrow> (\<exists>n. tensor_len t = Inr n \<and> 1 \<le> n))"
proof -
  have g: "small_load ''a.0.wav'' = Inr ([[1, - 2, 1 / 2, 0, 1, 1]], 16000)"
          "small_load ''a.3.wav'' = Inr ([[4, 2, 0, - 1, 1, 2]], 16000)"
    by (simp_all add: small_load_def)
  from C7_padded_lengths[OF framing_contract small_index g small_getitem]
  obtain c1 c2 a s c where
    cr: "crop small_params None 1
           (scale_squeeze [normalize_row [1, - 2, 1 / 2, 0, 1, 1]])
           (scale_squeeze [normalize_row [4, 2, 0, - 1, 1, 2]]) = Inr (c1, c2)"
    and r: "transformed_example
            (PyTensor (Tensor [6] [19 / 40, 0, - (19 / 80), 19 / 80, 0, 0]))
            (PyTensor (Tensor [3, 1] [0, 0, 0]))
            (PyTensor (Tensor [6] [- (19 / 20), 19 / 80, 0, 19 / 40, 0, 0]))
          = transformed_example (PyTensor a) s (PyTensor c)"
    and la: "tensor_len a = Inr (length c2 + nat (hop_samples small_params))"
    and lc: "tensor_len c = Inr (length c1 + nat (hop_samples small_params))"
    and sp: "case s of PyNone \<Rightarrow> True | PyTensor t \<Rightarrow> (\<exists>n. tensor_len t = Inr n \<and> 1 \<le> n)"
    unfolding small_ds_params by auto
  from cr[unfolded small_crop]
  have c: "c1 = [- (19 / 20), 19 / 80, 0, 19 / 40]" "c2 = [19 / 40, 0, - (19 / 80), 19 / 80]"
    by simp_all
  from la lc have "tensor_len a = Inr (4 + 2)" "tensor_len c = Inr (4 + 2)"
    by (simp_all add: c small_params_def)
  with sp have "NumpyDataset_getitem small_load framing_get_spec 1 small_ds 0
       = Inr (transformed_example (PyTensor a) s (PyTensor c))
     \<and> tensor_len a = Inr (4 + 2) \<and> tensor_len c = Inr (4 + 2)
     \<and> (case s of PyNone \<Rightarrow> True | PyTensor t \<Rightarrow> (\<exists>n. tensor_len t = Inr n \<and> 1 \<le> n))"
    unfolding small_getitem r[symmetric] by simp
  then show ?thesis by blast
qed

section \<open>Properties of the collator\<close>

lemma del_fields_example:
  "del_fields (transformed_example a s c) = Inr []"
  by (simp add: del_fields_def dict_del_def dict_in_def transformed_example_def)

lemma keep_fields_example:
  "keep_fields t (transformed_example a s c) = Inr (transformed_example a (PyTensor (tensor_T t)) c)"
  by (simp add: keep_fields_def dict_get_def transformed_example_def Let_def)

lemma filter_record_example:
  "filter_record cm (example_dict (a, s, c)) =
     (case s of
        None \<Rightarrow> Inr []
      | Some t \<Rightarrow>
          (case tensor_len t of
             Inl e \<Rightarrow> Inl e
           | Inr n \<Rightarrow> if int n < cm then Inr [] else Inr (example_dict (a, Some (tensor_T t), c))))"
proof (cases s)
  case None
  then show ?thesis
    by (simp add: filter_record_def example_dict_def del_fields_example)
       (simp add: dict_get_def transformed_example_def del_fields_example[unfolded transformed_example_def])
next
  case (Some t)
  have get: "dict_get (transformed_example a (PyTensor t) c) ''spectrogram'' = Inr (PyTensor t)" for a c
    by (simp add: dict_get_def transformed_example_def)
  show ?thesis
    by (simp add: Some filter_record_def example_dict_def get del_fields_example keep_fields_example
          split: sum.splits)
qed

lemma example_dict_nonempty [simp]: "example_dict ex \<noteq> []"
  by (cases ex) (simp add: example_dict_def transformed_example_def)

lemma filter_record_excluded:
  "excluded cm ex \<Longrightarrow> filter_record cm (example_dict ex) = Inr []"
  by (cases ex) (auto simp: filter_record_example excluded_def split: option.splits sum.splits)

lemma filter_record_survivor:
  "\<not> excluded cm ex \<Longrightarrow> filter_record cm (example_dict ex) = Inr r \<Longrightarrow> r = example_dict (kept ex)"
  by (cases ex) (auto simp: filter_record_example excluded_def kept_def split: option.splits sum.splits if_splits)

lemma filter_record_error:
  "filter_record cm (example_dict ex) = Inl e \<Longrightarrow> \<not> excluded cm ex"
  by (cases ex) (auto simp: filter_record_example excluded_def split: option.splits sum.splits if_splits)

lemma filter_loop_result:
  "filter_loop cm (map example_dict exs) = Inr rs \<Longrightarrow>
     rs = map (\<lambda>ex. if excluded cm ex then [] else example_dict (kept ex)) exs"
proof (induction exs arbitrary: rs)
  case Nil
  then show ?case by simp
next
  case (Cons ex exs)
  from Cons.prems obtain r rs' where
    r: "filter_record cm (example_dict ex) = Inr r"
    and rs': "filter_loop cm (map example_dict exs) = Inr rs'"
    and rs: "rs = r # rs'"
    by (auto split: sum.splits)
  have "r = (if excluded cm ex then [] else example_dict (kept ex))"
    using r filter_record_excluded[of cm ex] filter_record_survivor[of cm ex r] by auto
  with Cons.IH[OF rs'] rs show ?case by simp
qed

lemma filter_loop_error:
  "filter_loop cm (map example_dict exs) = Inl e \<Longrightarrow> \<exists>ex \<in> set exs. \<not> excluded cm ex"
proof (induction exs)
  case Nil
  then show ?case by simp
next
  case (Cons ex exs)
  then show ?case
    by (auto split: sum.splits dest: filter_record_error)
qed

lemma filter_loop_all_excluded:
  "\<forall>ex \<in> set exs. excluded cm ex \<Longrightarrow> filter_loop cm (map example_dict exs) = Inr (map (\<lambda>ex. []) exs)"
  by (induction exs) (auto simp: filter_record_excluded)

lemma all_empty_iff:
  "list_all (\<lambda>record. record = []) (map (\<lambda>ex. if excluded cm ex then [] else example_dict (kept ex)) exs)
     \<longleftrightarrow> (\<forall>ex \<in> set exs. excluded cm ex)"
  by (induction exs) auto

text \<open>
  Claim C4. For every list of transformed examples, the empty list included, \<open>collate\<close>
  returns \<open>None\<close> exactly when every example of the list is excluded by the filter, that
  is, has no spectrogram or one whose time-length is below the crop length.
\<close>

theorem C4_none_iff_all_excluded:
  "collate self (map example_dict exs) = Inr None
     \<longleftrightarrow> (\<forall>ex \<in> set exs. excluded (effective_crop_mel (c_crop_mel self) (c_params self)) ex)"
proof
  let ?cm = "effective_crop_mel (c_crop_mel self) (c_params self)"
  assume none: "collate self (map example_dict exs) = Inr None"
  show "\<forall>ex \<in> set exs. excluded ?cm ex"
  proof (cases "filter_loop ?cm (map example_dict exs)")
    case (Inl e)
    with none show ?thesis by (simp add: collate_def)
  next
    case (Inr rs)
    from none Inr have "list_all (\<lambda>record. record = []) rs"
      by (auto simp: collate_def Let_def split: if_splits sum.splits)
    with filter_loop_result[OF Inr] show ?thesis by (simp add: all_empty_iff)
  qed
next
  let ?cm = "effective_crop_mel (c_crop_mel self) (c_params self)"
  assume "\<forall>ex \<in> set exs. excluded ?cm ex"
  from filter_loop_all_excluded[OF this] show "collate self (map example_dict exs) = Inr None"
    by (simp add: collate_def list_all_iff)
qed

lemma tensors_of_PyTensor [simp]: "tensors_of (map PyTensor ts) = Some ts"
  by (induction ts) auto

lemma torch_stack_tensors [simp]: "torch_stack (map PyTensor ts) = stack ts"
  by (simp add: torch_stack_def)

lemma not_excluded_spec:
  "\<not> excluded cm ex \<Longrightarrow> \<exists>t. spectrogram_of ex = Some t"
  by (cases ex) (auto simp: excluded_def spectrogram_of_def split: option.splits)

lemma field_values_audio:
  "field_values ''audio'' (map (\<lambda>ex. if excluded cm ex then [] else example_dict (kept ex)) exs)
     = map PyTensor (map audio_of (survivors cm exs))"
  by (induction exs)
     (auto simp: field_values_def map_filter_simps survivors_def example_dict_def kept_def
        transformed_example_def audio_of_def split: prod.splits)

lemma field_values_cond:
  "field_values ''audio_cond_inst'' (map (\<lambda>ex. if excluded cm ex then [] else example_dict (kept ex)) exs)
     = map PyTensor (map audio_cond_inst_of (survivors cm exs))"
  by (induction exs)
     (auto simp: field_values_def map_filter_simps survivors_def example_dict_def kept_def
        transformed_example_def audio_cond_inst_of_def split: prod.splits)

lemma field_values_spec:
  "field_values ''spectrogram'' (map (\<lambda>ex. if excluded cm ex then [] else example_dict (kept ex)) exs)
     = map PyTensor (map (\<lambda>ex. tensor_T (the (spectrogram_of ex))) (survivors cm exs))"
proof (induction exs)
  case Nil
  then show ?case by (simp add: field_values_def map_filter_simps survivors_def)
next
  case (Cons ex exs)
  show ?case
  proof (cases "excluded cm ex")
    case True
    then show ?thesis using Cons.IH
      by (simp add: field_values_def map_filter_simps survivors_def)
  next
    case False
    from not_excluded_spec[OF False] obtain t where t: "spectrogram_of ex = Some t" ..
    then have "map_of (example_dict (kept ex)) ''spectrogram'' = Some (PyTensor (tensor_T t))"
      by (cases ex) (simp add: example_dict_def kept_def transformed_example_def spectrogram_of_def)
    with False t show ?thesis using Cons.IH
      by (simp add: field_values_def map_filter_simps survivors_def)
  qed
qed

lemma stack_field_values:
  "torch_stack (field_values ''audio'' (map (\<lambda>ex. if excluded cm ex then [] else example_dict (kept ex)) exs))
     = stack (map audio_of (survivors cm exs))"
  "torch_stack (field_values ''audio_cond_inst'' (map (\<lambda>ex. if excluded cm ex then [] else example_dict (kept ex)) exs))
     = stack (map audio_cond_inst_of (survivors cm exs))"
  "torch_stack (field_values ''spectrogram'' (map (\<lambda>ex. if excluded cm ex then [] else example_dict (kept ex)) exs))
     = stack (map (\<lambda>ex. tensor_T (the (spectrogram_of ex))) (survivors cm exs))"
  unfolding field_values_audio field_values_cond field_values_spec
  by (rule torch_stack_tensors)+

lemma stack_shape:
  "stack ts = Inr t \<Longrightarrow>
     ts \<noteq> [] \<and> shape t = length ts # shape (hd ts) \<and> (\<forall>u \<in> set ts. shape u = shape (hd ts))"
  by (cases ts) (auto simp: stack_def list_all_iff split: if_splits)

lemma collate_some:
  assumes "collate self (map example_dict exs) = Inr (Some b)"
  defines "cm \<equiv> effective_crop_mel (c_crop_mel self) (c_params self)"
  shows "filter_loop cm (map example_dict exs)
           = Inr (map (\<lambda>ex. if excluded cm ex then [] else example_dict (kept ex)) exs)"
    and "stack (map audio_of (survivors cm exs)) = Inr (b_audio b)"
    and "stack (map (\<lambda>ex. tensor_T (the (spectrogram_of ex))) (survivors cm exs)) = Inr (b_spectrogram b)"
    and "stack (map audio_cond_inst_of (survivors cm exs)) = Inr (b_audio_cond_inst b)"
proof -
  from assms(1) obtain rs where rs: "filter_loop cm (map example_dict exs) = Inr rs"
    by (cases "filter_loop cm (map example_dict exs)") (simp_all add: collate_def cm_def)
  from filter_loop_result[OF rs]
  have rs_eq: "rs = map (\<lambda>ex. if excluded cm ex then [] else example_dict (kept ex)) exs" .
  with rs show "filter_loop cm (map example_dict exs)
           = Inr (map (\<lambda>ex. if excluded cm ex then [] else example_dict (kept ex)) exs)" by simp
  from rs rs_eq have loop: "filter_loop (effective_crop_mel (c_crop_mel self) (c_params self)) (map example_dict exs)
      = Inr (map (\<lambda>ex. if excluded cm ex then [] else example_dict (kept ex)) exs)"
    by (simp add: cm_def)
  from assms(1) have
    "(case stack (map audio_of (survivors cm exs)) of Inl e \<Rightarrow> Inl e
      | Inr audio \<Rightarrow>
        (case stack (map audio_cond_inst_of (survivors cm exs)) of Inl e \<Rightarrow> Inl e
         | Inr audio_cond_inst \<Rightarrow>
           (case stack (map (\<lambda>ex. tensor_T (the (spectrogram_of ex))) (survivors cm exs)) of Inl e \<Rightarrow> Inl e
            | Inr spectrogram \<Rightarrow>
                Inr (Some \<lparr>b_audio = audio, b_spectrogram = spectrogram,
                           b_audio_cond_inst = audio_cond_inst\<rparr>)))) = Inr (Some b)"
    by (auto simp: collate_def Let_def loop stack_field_values split: if_splits sum.splits)
  then show "stack (map audio_of (survivors cm exs)) = Inr (b_audio b)"
    and "stack (map (\<lambda>ex. tensor_T (the (spectrogram_of ex))) (survivors cm exs)) = Inr (b_spectrogram b)"
    and "stack (map audio_cond_inst_of (survivors cm exs)) = Inr (b_audio_cond_inst b)"
    by (auto split: sum.splits)
qed

text \<open>
  Claim C5. When \<open>collate\<close> returns a batch, each of its three tensors has as leading
  dimension the number of examples that survive the filter, and each is the stack of that
  field over exactly the survivors: an excluded example contributes to none of the three.
\<close>

theorem C5_batch_dimension:
  assumes "collate self (map example_dict exs) = Inr (Some b)"
  shows "\<exists>sa ss sc.
           shape (b_audio b)
             = length (survivors (effective_crop_mel (c_crop_mel self) (c_params self)) exs) # sa
         \<and> shape (b_spectrogram b)
             = length (survivors (effective_crop_mel (c_crop_mel self) (c_params self)) exs) # ss
         \<and> shape (b_audio_cond_inst b)
             = length (survivors (effective_crop_mel (c_crop_mel self) (c_params self)) exs) # sc
         \<and> stack (map audio_of
               (survivors (effective_crop_mel (c_crop_mel self) (c_params self)) exs))
             = Inr (b_audio b)
         \<and> stack (map (\<lambda>ex. tensor_T (the (spectrogram_of ex)))
               (survivors (effective_crop_mel (c_crop_mel self) (c_params self)) exs))
             = Inr (b_spectrogram b)
         \<and> stack (map audio_cond_inst_of
               (survivors (effective_crop_mel (c_crop_mel self) (c_params self)) exs))
             = Inr (b_audio_cond_inst b)"
proof -
  let ?sv = "survivors (effective_crop_mel (c_crop_mel self) (c_params self)) exs"
  note st = collate_some(2-4)[OF assms]
  from stack_shape[OF st(1)] have a: "shape (b_audio b) = length ?sv # shape (hd (map audio_of ?sv))"
    by simp
  from stack_shape[OF st(2)]
  have s: "shape (b_spectrogram b)
             = length ?sv # shape (hd (map (\<lambda>ex. tensor_T (the (spectrogram_of ex))) ?sv))"
    by simp
  from stack_shape[OF st(3)]
  have c: "shape (b_audio_cond_inst b) = length ?sv # shape (hd (map audio_cond_inst_of ?sv))"
    by simp
  from a s c st show ?thesis by blast
qed

lemma filter_loop_lengths:
  "filter_loop cm (map example_dict exs) = Inr rs \<Longrightarrow> ex \<in> set exs \<Longrightarrow>
     spectrogram_of ex = Some t \<Longrightarrow> \<exists>d ds. shape t = d # ds"
proof (induction exs arbitrary: rs)
  case Nil
  then show ?case by simp
next
  case (Cons x exs)
  from Cons.prems(1) obtain r rs' where
    r: "filter_record cm (example_dict x) = Inr r"
    and rs': "filter_loop cm (map example_dict exs) = Inr rs'"
    by (auto split: sum.splits)
  show ?case
  proof (cases "ex = x")
    case True
    with r Cons.prems(3) show ?thesis
      by (cases x; cases "shape t")
         (auto simp: filter_record_example spectrogram_of_def tensor_len_def split: list.splits)
  next
    case False
    with Cons.prems(2) have "ex \<in> set exs" by simp
    from Cons.IH[OF rs' this Cons.prems(3)] show ?thesis .
  qed
qed

lemma short_crop: "effective_crop_mel (c_crop_mel short_collator) (c_params short_collator) = 2"
  by (simp add: short_collator_def Collator_init_def effective_crop_mel_def truthy_def)

lemma excluded_absent: "excluded 2 absent_example"
  by (simp add: excluded_def absent_example_def)

lemma not_excluded_long: "\<not> excluded 2 long_example"
  by (simp add: excluded_def long_example_def long_spec_def tensor_len_def)

lemma collate_long:
  "collate short_collator (map example_dict [absent_example, long_example, absent_example, absent_example])
     = Inr (Some long_batch)"
  by code_simp

lemma short_survivors:
  "survivors 2 [absent_example, long_example, absent_example, absent_example] = [long_example]"
  by (simp add: survivors_def excluded_absent not_excluded_long)

text \<open>
  C4 at four examples without spectrogram, at the empty list, and at a list with one
  survivor.
\<close>

theorem C4_none_iff_all_excluded_witness:
  "excluded 2 absent_example
   \<and> collate short_collator
        (map example_dict [absent_example, absent_example, absent_example, absent_example])
       = Inr None
   \<and> collate short_collator (map example_dict []) = Inr None
   \<and> collate short_collator
        (map example_dict [absent_example, long_example, absent_example, absent_example])
       \<noteq> Inr None"
proof -
  have 1: "collate short_collator
        (map example_dict [absent_example, absent_example, absent_example, absent_example])
       = Inr None"
    using C4_none_iff_all_excluded[of short_collator
            "[absent_example, absent_example, absent_example, absent_example]"]
    by (simp add: short_crop excluded_absent)
  have 2: "collate short_collator (map example_dict []) = Inr None"
    using C4_none_iff_all_excluded[of short_collator "[]"] by simp
  have 3: "collate short_collator
        (map example_dict [absent_example, long_example, absent_example, absent_example])
       \<noteq> Inr None"
    using C4_none_iff_all_excluded[of short_collator
            "[absent_example, long_example, absent_example, absent_example]"]
    by (simp add: short_crop not_excluded_long)
  from 1 2 3 excluded_absent show ?thesis by simp
qed

text \<open>
  C5 at four examples of which three have no spectrogram: leading dimension one.
\<close>

theorem C5_batch_dimension_witness:
  "collate short_collator
     (map example_dict [absent_example, long_example, absent_example, absent_example])
     = Inr (Some long_batch)
   \<and> (\<exists>sa ss sc. shape (b_audio long_batch) = 1 # sa
         \<and> shape (b_spectrogram long_batch) = 1 # ss
         \<and> shape (b_audio_cond_inst long_batch) = 1 # sc)"
proof -
  from C5_batch_dimension[OF collate_long]
  have "\<exists>sa ss sc. shape (b_audio long_batch) = 1 # sa
         \<and> shape (b_spectrogram long_batch) = 1 # ss
         \<and> shape (b_audio_cond_inst long_batch) = 1 # sc"
    unfolding short_crop short_survivors by auto
  with collate_long show ?thesis by simp
qed

lemma produced_by_getitem:
  "NumpyDataset_getitem small_load framing_get_spec 1 small_ds 0 = Inr (example_dict produced_example)"
  "NumpyDataset_getitem small_load failing_get_spec 1 small_ds 0 = Inr (example_dict failed_example)"
  "NumpyDataset_getitem tiny_load framing_get_spec 1 small_ds 0 = Inr (example_dict tiny_example)"
  by code_simp+

lemma override_crop:
  "effective_crop_mel (c_crop_mel override_collator) (c_params override_collator) = 2"
  by (simp add: override_collator_def Collator_init_def effective_crop_mel_def truthy_def)

lemma collate_produced:
  "collate override_collator (map example_dict [tiny_example, failed_example, produced_example])
     = Inr (Some produced_batch)"
  by code_simp

lemma produced_survivors:
  "survivors 2 [tiny_example, failed_example, produced_example] = [produced_example]"
  by (simp add: survivors_def excluded_def tiny_example_def failed_example_def produced_example_def
        tensor_len_def)

text \<open>
  Claim C8 as stated fails. The example is one that \<open>__getitem__\<close> returns (crop length
  3, hop size 2); a collator with crop length 2 admits its spectrogram of time-length 3 and
  stacks it into the batch.
\<close>

theorem C8_time_length_exceeds_crop_counterexample:
  "NumpyDataset_getitem small_load framing_get_spec 1 small_ds 0 = Inr (example_dict produced_example)
   \<and> collate override_collator (map example_dict [produced_example]) = Inr (Some produced_batch)
   \<and> spectrogram_of produced_example = Some (Tensor [3, 1] [0, 0, 0])
   \<and> tensor_len (Tensor [3, 1] [0, 0, 0]) = Inr 3
   \<and> effective_crop_mel (c_crop_mel override_collator) (c_params override_collator) = 2
   \<and> shape (b_spectrogram produced_batch) = [1, 1, 3]"
  by code_simp

lemma survivor_admitted:
  assumes "filter_loop cm (map example_dict exs) = Inr rs"
      and "ex \<in> set (survivors cm exs)"
  shows "\<exists>t d ds. spectrogram_of ex = Some t \<and> shape t = d # ds \<and> cm \<le> int d"
proof -
  from assms(2) have mem: "ex \<in> set exs" and ne: "\<not> excluded cm ex"
    by (simp_all add: survivors_def)
  from not_excluded_spec[OF ne] obtain t where t: "spectrogram_of ex = Some t" ..
  from filter_loop_lengths[OF assms(1) mem t] obtain d ds where sh: "shape t = d # ds" by blast
  from ne t sh have "cm \<le> int d"
    by (cases ex) (simp add: excluded_def spectrogram_of_def tensor_len_def)
  with t sh show ?thesis by blast
qed

text \<open>
  Claim C8, amended. When \<open>collate\<close> returns a batch, its spectrogram tensor is the stack
  of the transposed spectrograms of exactly the survivors of the filter, of which there is
  at least one; every stacked spectrogram has a time-length \<open>d\<close> of at least the crop
  length, and all of them have the one shape stacked into the batch, so they share one
  time-length. Every spectrogram present in the input has a time-length, and its example
  survives exactly when that time-length is at least the crop length: a strictly longer
  one is admitted.
\<close>

theorem C8_time_length_at_least_crop:
  assumes "collate self (map example_dict exs) = Inr (Some b)"
  shows "stack (map (\<lambda>ex. tensor_T (the (spectrogram_of ex)))
                 (survivors (effective_crop_mel (c_crop_mel self) (c_params self)) exs))
           = Inr (b_spectrogram b)
       \<and> survivors (effective_crop_mel (c_crop_mel self) (c_params self)) exs \<noteq> []
       \<and> (\<forall>ex \<in> set (survivors (effective_crop_mel (c_crop_mel self) (c_params self)) exs).
            \<exists>t d ds. spectrogram_of ex = Some t \<and> shape t = d # ds
              \<and> effective_crop_mel (c_crop_mel self) (c_params self) \<le> int d
              \<and> shape (b_spectrogram b)
                   = length (survivors (effective_crop_mel (c_crop_mel self) (c_params self)) exs)
                       # rev ds @ [d])
       \<and> (\<forall>ex \<in> set exs. \<forall>t. spectrogram_of ex = Some t \<longrightarrow>
            (\<exists>d ds. shape t = d # ds
               \<and> (ex \<in> set (survivors (effective_crop_mel (c_crop_mel self) (c_params self)) exs)
                    \<longleftrightarrow> effective_crop_mel (c_crop_mel self) (c_params self) \<le> int d)))"
proof -
  let ?cm = "effective_crop_mel (c_crop_mel self) (c_params self)"
  let ?sv = "survivors ?cm exs"
  let ?f = "\<lambda>ex. tensor_T (the (spectrogram_of ex))"
  note loop = collate_some(1)[OF assms]
  note st = collate_some(3)[OF assms]
  from stack_shape[OF st] have ne: "?sv \<noteq> []"
    and shp: "shape (b_spectrogram b) = length ?sv # shape (hd (map ?f ?sv))"
    and same: "\<forall>u \<in> set (map ?f ?sv). shape u = shape (hd (map ?f ?sv))"
    by simp_all
  have adm: "\<forall>ex \<in> set ?sv. \<exists>t d ds. spectrogram_of ex = Some t \<and> shape t = d # ds \<and> ?cm \<le> int d
              \<and> shape (b_spectrogram b) = length ?sv # rev ds @ [d]"
  proof
    fix ex
    assume mem: "ex \<in> set ?sv"
    from survivor_admitted[OF loop mem] obtain t d ds where
      t: "spectrogram_of ex = Some t" and sh: "shape t = d # ds" and le: "?cm \<le> int d"
      by blast
    from mem have "?f ex \<in> ?f ` set ?sv" by (rule imageI)
    then have "?f ex \<in> set (map ?f ?sv)" by (simp only: set_map)
    with same have "shape (?f ex) = shape (hd (map ?f ?sv))" by blast
    with shp t sh have "shape (b_spectrogram b) = length ?sv # rev ds @ [d]" by simp
    with t sh le
    show "\<exists>t d ds. spectrogram_of ex = Some t \<and> shape t = d # ds \<and> ?cm \<le> int d
              \<and> shape (b_spectrogram b) = length ?sv # rev ds @ [d]"
      by blast
  qed
  have all: "\<forall>ex \<in> set exs. \<forall>t. spectrogram_of ex = Some t \<longrightarrow>
            (\<exists>d ds. shape t = d # ds \<and> (ex \<in> set ?sv \<longleftrightarrow> ?cm \<le> int d))"
  proof (intro ballI allI impI)
    fix ex t
    assume ex: "ex \<in> set exs" and t: "spectrogram_of ex = Some t"
    from filter_loop_lengths[OF loop ex t] obtain d ds where sh: "shape t = d # ds" by blast
    have "ex \<in> set ?sv \<longleftrightarrow> ?cm \<le> int d"
      using ex t sh
      by (cases ex) (auto simp: survivors_def excluded_def spectrogram_of_def tensor_len_def)
    with sh show "\<exists>d ds. shape t = d # ds \<and> (ex \<in> set ?sv \<longleftrightarrow> ?cm \<le> int d)" by blast
  qed
  from st ne adm all show ?thesis by (intro conjI)
qed

text \<open>
  The amended C8 at three examples that \<open>__getitem__\<close> returns, with time-length 1, no
  spectrogram, and time-length 3, against crop length 2: only the last is stacked.
\<close>

theorem C8_time_length_at_least_crop_witness:
  "collate override_collator (map example_dict [tiny_example, failed_example, produced_example])
     = Inr (Some produced_batch)
   \<and> stack [tensor_T (Tensor [3, 1] [0, 0, 0])] = Inr (b_spectrogram produced_batch)
   \<and> shape (b_spectrogram produced_batch) = [1, 1, 3]
   \<and> tiny_example \<notin> set (survivors 2 [tiny_example, failed_example, produced_example])"
proof -
  have sp: "spectrogram_of produced_example = Some (Tensor [3, 1] [0, 0, 0])"
    and tsp: "spectrogram_of tiny_example = Some (Tensor [1, 1] [0])"
    by (simp_all add: spectrogram_of_def produced_example_def tiny_example_def)
  note inst = C8_time_length_at_least_crop[OF collate_produced, unfolded override_crop produced_survivors]
  from inst have st: "stack [tensor_T (Tensor [3, 1] [0, 0, 0])] = Inr (b_spectrogram produced_batch)"
    by (simp add: sp)
  from inst obtain t d ds where
    "spectrogram_of produced_example = Some t" and "shape t = d # ds" and "2 \<le> int d"
    and shp: "shape (b_spectrogram produced_batch) = length [produced_example] # rev ds @ [d]"
    by auto
  with sp have shape3: "shape (b_spectrogram produced_batch) = [1, 1, 3]" by auto
  from inst have "\<forall>t. spectrogram_of tiny_example = Some t \<longrightarrow>
            (\<exists>d ds. shape t = d # ds \<and> (tiny_example \<in> set [produced_example] \<longleftrightarrow> 2 \<le> int d))"
    by simp
  with tsp have "tiny_example \<notin> set [produced_example]" by auto
  with st shape3 collate_produced show ?thesis
    unfolding produced_survivors by simp
qed

section \<open>The crop-length override\<close>

text \<open>
  Claim C10. The crop-length override is used only when it is truthy. The falsy overrides
  are \<open>None\<close> and 0; for each of them the configured \<open>crop_mel_frames\<close> is the crop
  length, and both \<open>__getitem__\<close> and \<open>collate\<close> behave exactly as with no override: an
  override of 0 is neither rejected nor honoured.
\<close>

theorem C10_falsy_override_ignored:
  "(truthy c \<longrightarrow> effective_crop_mel c P = the c)
   \<and> (\<not> truthy c \<longleftrightarrow> c = None \<or> c = Some 0)
   \<and> (\<not> truthy c \<longrightarrow>
        effective_crop_mel c P = crop_mel_frames P
      \<and> crop_len P c = (crop_mel_frames P - 1) * hop_samples P
      \<and> NumpyDataset_getitem load get_spec u (ds\<lparr>ds_crop_mel := c\<rparr>) idx
          = NumpyDataset_getitem load get_spec u (ds\<lparr>ds_crop_mel := None\<rparr>) idx
      \<and> collate (self\<lparr>c_crop_mel := c\<rparr>) minibatch
          = collate (self\<lparr>c_crop_mel := None\<rparr>) minibatch)"
proof (intro conjI impI)
  show "truthy c \<Longrightarrow> effective_crop_mel c P = the c" by (simp add: effective_crop_mel_def)
  show "(\<not> truthy c) = (c = None \<or> c = Some 0)"
    by (cases c) (simp_all add: truthy_def)
next
  assume f: "\<not> truthy c"
  have eff: "effective_crop_mel c Q = effective_crop_mel None Q" for Q
    using f by (simp add: effective_crop_mel_def truthy_def)
  show "effective_crop_mel c P = crop_mel_frames P"
    using f by (simp add: effective_crop_mel_def)
  then show "crop_len P c = (crop_mel_frames P - 1) * hop_samples P"
    by (simp add: crop_len_def)
  have cr: "crop Q c u' w1 w2 = crop Q None u' w1 w2" for Q u' and w1 w2 :: "real list"
    by (simp add: crop_def eff)
  show "NumpyDataset_getitem load get_spec u (ds\<lparr>ds_crop_mel := c\<rparr>) idx
          = NumpyDataset_getitem load get_spec u (ds\<lparr>ds_crop_mel := None\<rparr>) idx"
    unfolding NumpyDataset_getitem_def
    by (simp add: cr cong: sum.case_cong prod.case_cong if_cong)
  show "collate (self\<lparr>c_crop_mel := c\<rparr>) minibatch
          = collate (self\<lparr>c_crop_mel := None\<rparr>) minibatch"
    by (simp add: collate_def eff)
qed

text \<open>
  C10 at the override 0 (ignored) and at the override 5 (used).
\<close>

theorem C10_falsy_override_ignored_witness:
  "\<not> truthy (Some 0)
   \<and> effective_crop_mel (Some 0) small_params = 3
   \<and> crop_len small_params (Some 0) = 4
   \<and> NumpyDataset_getitem small_load framing_get_spec 1 (small_ds\<lparr>ds_crop_mel := Some 0\<rparr>) 0
       = NumpyDataset_getitem small_load framing_get_spec 1 (small_ds\<lparr>ds_crop_mel := None\<rparr>) 0
   \<and> collate (short_collator\<lparr>c_crop_mel := Some 0\<rparr>) (map example_dict [long_example])
       = collate (short_collator\<lparr>c_crop_mel := None\<rparr>) (map example_dict [long_example])
   \<and> effective_crop_mel (Some 5) small_params = 5"
proof -
  have f: "\<not> truthy (Some 0)" and t: "truthy (Some 5)" by (simp_all add: truthy_def)
  from C10_falsy_override_ignored[of "Some 0" small_params small_load framing_get_spec 1 small_ds 0
         short_collator "map example_dict [long_example]"] f
  have 1: "effective_crop_mel (Some 0) small_params = 3
   \<and> crop_len small_params (Some 0) = 4
   \<and> NumpyDataset_getitem small_load framing_get_spec 1 (small_ds\<lparr>ds_crop_mel := Some 0\<rparr>) 0
       = NumpyDataset_getitem small_load framing_get_spec 1 (small_ds\<lparr>ds_crop_mel := None\<rparr>) 0
   \<and> collate (short_collator\<lparr>c_crop_mel := Some 0\<rparr>) (map example_dict [long_example])
       = collate (short_collator\<lparr>c_crop_mel := None\<rparr>) (map example_dict [long_example])"
    by (simp add: small_params_def)
  from C10_falsy_override_ignored[of "Some 5" small_params small_load framing_get_spec 1 small_ds 0
         short_collator "map example_dict [long_example]"] t
  have 2: "effective_crop_mel (Some 5) small_params = 5" by simp
  from f 1 2 show ?thesis by blast
qed

end
